theory Spec2Isabelle
  imports Complex_Main "HOL-Library.Char_ord" "HOL-Library.List_Lexorder"
begin

section \<open>Schema of the gradebook (nbgrader/api.py)\<close>

text \<open>
  Every mapped class of \<^verbatim>\<open>api.py\<close> is a record holding the columns of its table, and
  the database is the record of the nine tables, each a list of rows.  A nullable column
  is an \<open>option\<close> (\<open>None\<close> is SQL's NULL and Python's \<open>None\<close>); a column declared
  \<^verbatim>\<open>nullable=False\<close> or \<^verbatim>\<open>primary_key=True\<close> holds a plain value.
  \<^verbatim>\<open>Float()\<close> columns are modelled by \<open>real\<close>: what is proved is which rows are
  summed and which value is selected, not how sums are rounded.  \<^verbatim>\<open>DateTime()\<close> is the number
  of microseconds since the epoch and \<^verbatim>\<open>Interval()\<close> a number of microseconds.
\<close>

type_synonym ident = string

datatype cell_type = Code | Markdown

record assignment =
  a_id :: ident
  a_name :: string
  a_duedate :: "int option"

record notebook =
  nb_id :: ident
  nb_name :: string
  nb_assignment_id :: "ident option"

record grade_cell =
  gc_id :: ident
  gc_name :: string
  gc_max_score :: real
  gc_cell_type :: cell_type
  gc_source :: "string option"
  gc_checksum :: "string option"
  gc_notebook_id :: "ident option"

record solution_cell =
  sc_id :: ident
  sc_name :: string
  sc_notebook_id :: "ident option"
  sc_cell_type :: cell_type
  sc_source :: "string option"
  sc_checksum :: "string option"

record student =
  st_id :: ident
  st_first_name :: "string option"
  st_last_name :: "string option"
  st_email :: "string option"

record submitted_assignment =
  sa_id :: ident
  sa_assignment_id :: "ident option"
  sa_student_id :: "ident option"
  sa_timestamp :: "int option"
  sa_extension :: "int option"

record submitted_notebook =
  sn_id :: ident
  sn_notebook_id :: "ident option"
  sn_assignment_id :: "ident option"

record grade =
  g_id :: ident
  g_cell_id :: "ident option"
  g_notebook_id :: "ident option"
  g_auto_score :: "real option"
  g_manual_score :: "real option"

record comment =
  cm_id :: ident
  cm_cell_id :: "ident option"
  cm_notebook_id :: "ident option"
  cm_comment :: "string option"

record database =
  assignments :: "assignment list"
  notebooks :: "notebook list"
  grade_cells :: "grade_cell list"
  solution_cells :: "solution_cell list"
  students :: "student list"
  submitted_assignments :: "submitted_assignment list"
  submitted_notebooks :: "submitted_notebook list"
  grades :: "grade list"
  comments :: "comment list"

section \<open>The SQL expressions the column properties are built from\<close>

text \<open>
  The derived attributes of \<^verbatim>\<open>api.py\<close> are \<^verbatim>\<open>column_property\<close> expressions that the
  database evaluates.  SQL's logic is three-valued: a comparison with NULL is NULL, a
  \<^verbatim>\<open>WHERE\<close> clause keeps the rows whose condition is true, \<^verbatim>\<open>sum\<close> skips NULLs and is
  NULL over no value, a scalar subquery with no row is NULL.
\<close>

definition sql_eq :: "'a option \<Rightarrow> 'a option \<Rightarrow> bool option" where
  "sql_eq x y =
     (case x of None \<Rightarrow> None
      | Some a \<Rightarrow> (case y of None \<Rightarrow> None | Some b \<Rightarrow> Some (a = b)))"

definition sql_lt :: "real option \<Rightarrow> real option \<Rightarrow> bool option" where
  "sql_lt x y =
     (case x of None \<Rightarrow> None
      | Some a \<Rightarrow> (case y of None \<Rightarrow> None | Some b \<Rightarrow> Some (a < b)))"

definition sql_and :: "bool option \<Rightarrow> bool option \<Rightarrow> bool option" where
  "sql_and p q =
     (if p = Some False \<or> q = Some False then Some False
      else if p = None \<or> q = None then None
      else Some True)"

definition sql_is_null :: "'a option \<Rightarrow> bool option" where
  "sql_is_null x = Some (x = None)"

definition sql_is_not_null :: "'a option \<Rightarrow> bool option" where
  "sql_is_not_null x = Some (x \<noteq> None)"

definition sql_where :: "('r \<Rightarrow> bool option) \<Rightarrow> 'r list \<Rightarrow> 'r list" where
  "sql_where cond rows = filter (\<lambda>r. cond r = Some True) rows"

definition sql_sum :: "real option list \<Rightarrow> real option" where
  "sql_sum vs =
     (case List.map_filter (\<lambda>v. v) vs of [] \<Rightarrow> None | w # ws \<Rightarrow> Some (sum_list (w # ws)))"

definition sql_coalesce :: "'a option \<Rightarrow> 'a \<Rightarrow> 'a" where
  "sql_coalesce x d = (case x of None \<Rightarrow> d | Some v \<Rightarrow> v)"

definition sql_exists :: "'r list \<Rightarrow> bool" where
  "sql_exists rows = (rows \<noteq> [])"

definition sql_scalar :: "'a option list \<Rightarrow> 'a option" where
  "sql_scalar rows = (case rows of [] \<Rightarrow> None | v # _ \<Rightarrow> v)"

fun sql_case :: "(bool option \<times> 'a option) list \<Rightarrow> 'a option \<Rightarrow> 'a option" where
  "sql_case [] els = els"
| "sql_case ((c, v) # whens) els = (if c = Some True then v else sql_case whens els)"

section \<open>Column properties of \<^verbatim>\<open>Grade\<close>\<close>

text \<open>
  \<^verbatim>\<open>Grade.score = column_property(case([(manual_score != None, manual_score),
  (auto_score != None, auto_score)], else_=literal_column("0.0")))\<close>
\<close>

definition Grade_score :: "grade \<Rightarrow> real option" where
  "Grade_score g =
     sql_case
       [(sql_is_not_null (g_manual_score g), g_manual_score g),
        (sql_is_not_null (g_auto_score g), g_auto_score g)]
       (Some 0)"

text \<open>
  \<^verbatim>\<open>Grade.needs_manual_grade = column_property((auto_score == None) & (manual_score == None))\<close>
\<close>

definition Grade_needs_manual_grade :: "grade \<Rightarrow> bool option" where
  "Grade_needs_manual_grade g =
     sql_and (sql_is_null (g_auto_score g)) (sql_is_null (g_manual_score g))"

text \<open>
  \<^verbatim>\<open>Grade.max_score\<close> and \<^verbatim>\<open>Grade.cell_type\<close> are scalar subqueries on \<^verbatim>\<open>grade_cell\<close>
  with \<^verbatim>\<open>Grade.cell_id == GradeCell.id\<close>.
\<close>

definition Grade_max_score :: "database \<Rightarrow> grade \<Rightarrow> real option" where
  "Grade_max_score db g =
     sql_scalar (map (\<lambda>c. Some (gc_max_score c))
       (sql_where (\<lambda>c. sql_eq (g_cell_id g) (Some (gc_id c))) (grade_cells db)))"

definition Grade_cell_type :: "database \<Rightarrow> grade \<Rightarrow> cell_type option" where
  "Grade_cell_type db g =
     sql_scalar (map (\<lambda>c. Some (gc_cell_type c))
       (sql_where (\<lambda>c. sql_eq (g_cell_id g) (Some (gc_id c))) (grade_cells db)))"

text \<open>
  \<^verbatim>\<open>Grade.failed_tests = column_property((Grade.auto_score < Grade.max_score) &
  (Grade.cell_type == "code"))\<close>
\<close>

definition Grade_failed_tests :: "database \<Rightarrow> grade \<Rightarrow> bool option" where
  "Grade_failed_tests db g =
     sql_and (sql_lt (g_auto_score g) (Grade_max_score db g))
             (sql_eq (Grade_cell_type db g) (Some Code))"

section \<open>Relationships\<close>

text \<open>
  The \<^verbatim>\<open>relationship(...)\<close> collections of the mapped classes: the rows of the child
  table whose foreign key is the parent's primary key.  \<^verbatim>\<open>Assignment.notebooks\<close> is
  declared with \<^verbatim>\<open>order_by="Notebook.name"\<close>.
\<close>

definition Assignment_notebooks :: "database \<Rightarrow> assignment \<Rightarrow> notebook list" where
  "Assignment_notebooks db a =
     sort_key nb_name (filter (\<lambda>n. nb_assignment_id n = Some (a_id a)) (notebooks db))"

definition Assignment_submissions :: "database \<Rightarrow> assignment \<Rightarrow> submitted_assignment list" where
  "Assignment_submissions db a =
     filter (\<lambda>s. sa_assignment_id s = Some (a_id a)) (submitted_assignments db)"

definition Notebook_grade_cells :: "database \<Rightarrow> notebook \<Rightarrow> grade_cell list" where
  "Notebook_grade_cells db n =
     filter (\<lambda>c. gc_notebook_id c = Some (nb_id n)) (grade_cells db)"

definition Notebook_solution_cells :: "database \<Rightarrow> notebook \<Rightarrow> solution_cell list" where
  "Notebook_solution_cells db n =
     filter (\<lambda>c. sc_notebook_id c = Some (nb_id n)) (solution_cells db)"

definition Notebook_submissions :: "database \<Rightarrow> notebook \<Rightarrow> submitted_notebook list" where
  "Notebook_submissions db n =
     filter (\<lambda>s. sn_notebook_id s = Some (nb_id n)) (submitted_notebooks db)"

definition Student_submissions :: "database \<Rightarrow> student \<Rightarrow> submitted_assignment list" where
  "Student_submissions db s =
     filter (\<lambda>x. sa_student_id x = Some (st_id s)) (submitted_assignments db)"

definition SubmittedAssignment_notebooks ::
  "database \<Rightarrow> submitted_assignment \<Rightarrow> submitted_notebook list" where
  "SubmittedAssignment_notebooks db s =
     filter (\<lambda>n. sn_assignment_id n = Some (sa_id s)) (submitted_notebooks db)"

definition SubmittedNotebook_grades :: "database \<Rightarrow> submitted_notebook \<Rightarrow> grade list" where
  "SubmittedNotebook_grades db n =
     filter (\<lambda>g. g_notebook_id g = Some (sn_id n)) (grades db)"

definition SubmittedNotebook_comments :: "database \<Rightarrow> submitted_notebook \<Rightarrow> comment list" where
  "SubmittedNotebook_comments db n =
     filter (\<lambda>c. cm_notebook_id c = Some (sn_id n)) (comments db)"

text \<open>
  The many-to-one side (the \<^verbatim>\<open>backref\<close>): the parent row the foreign key names, \<open>None\<close>
  when the key is NULL or names no row.
\<close>

definition Grade_cell :: "database \<Rightarrow> grade \<Rightarrow> grade_cell option" where
  "Grade_cell db g = find (\<lambda>c. g_cell_id g = Some (gc_id c)) (grade_cells db)"

definition SubmittedNotebook_notebook :: "database \<Rightarrow> submitted_notebook \<Rightarrow> notebook option" where
  "SubmittedNotebook_notebook db s = find (\<lambda>n. sn_notebook_id s = Some (nb_id n)) (notebooks db)"

definition SubmittedAssignment_assignment ::
  "database \<Rightarrow> submitted_assignment \<Rightarrow> assignment option" where
  "SubmittedAssignment_assignment db s =
     find (\<lambda>a. sa_assignment_id s = Some (a_id a)) (assignments db)"

definition SubmittedAssignment_student :: "database \<Rightarrow> submitted_assignment \<Rightarrow> student option" where
  "SubmittedAssignment_student db s =
     find (\<lambda>x. sa_student_id s = Some (st_id x)) (students db)"

section \<open>Needs manual grade, failed tests\<close>

text \<open>
  \<^verbatim>\<open>SubmittedNotebook.needs_manual_grade = exists().where(and_(
  Grade.notebook_id == SubmittedNotebook.id, Grade.needs_manual_grade))\<close>
\<close>

definition SubmittedNotebook_needs_manual_grade :: "database \<Rightarrow> submitted_notebook \<Rightarrow> bool" where
  "SubmittedNotebook_needs_manual_grade db s =
     sql_exists (sql_where
       (\<lambda>g. sql_and (sql_eq (g_notebook_id g) (Some (sn_id s))) (Grade_needs_manual_grade g))
       (grades db))"

text \<open>
  \<^verbatim>\<open>SubmittedAssignment.needs_manual_grade = exists().where(and_(
  SubmittedNotebook.assignment_id == SubmittedAssignment.id,
  Grade.notebook_id == SubmittedNotebook.id, Grade.needs_manual_grade))\<close>:
  the subquery ranges over the product of \<^verbatim>\<open>submitted_notebook\<close> and \<^verbatim>\<open>grade\<close>.
\<close>

definition SubmittedAssignment_needs_manual_grade ::
  "database \<Rightarrow> submitted_assignment \<Rightarrow> bool" where
  "SubmittedAssignment_needs_manual_grade db s =
     sql_exists (sql_where
       (\<lambda>(n, g). sql_and (sql_eq (sn_assignment_id n) (Some (sa_id s)))
                  (sql_and (sql_eq (g_notebook_id g) (Some (sn_id n)))
                           (Grade_needs_manual_grade g)))
       (List.product (submitted_notebooks db) (grades db)))"

text \<open>
  \<^verbatim>\<open>Notebook.needs_manual_grade = exists().where(and_(
  Notebook.id == SubmittedNotebook.notebook_id,
  Grade.notebook_id == SubmittedNotebook.id, Grade.needs_manual_grade))\<close>
\<close>

definition Notebook_needs_manual_grade :: "database \<Rightarrow> notebook \<Rightarrow> bool" where
  "Notebook_needs_manual_grade db n =
     sql_exists (sql_where
       (\<lambda>(s, g). sql_and (sql_eq (Some (nb_id n)) (sn_notebook_id s))
                  (sql_and (sql_eq (g_notebook_id g) (Some (sn_id s)))
                           (Grade_needs_manual_grade g)))
       (List.product (submitted_notebooks db) (grades db)))"

text \<open>
  \<^verbatim>\<open>SubmittedNotebook.failed_tests = exists().where(and_(
  Grade.notebook_id == SubmittedNotebook.id, Grade.failed_tests))\<close>
\<close>

definition SubmittedNotebook_failed_tests :: "database \<Rightarrow> submitted_notebook \<Rightarrow> bool" where
  "SubmittedNotebook_failed_tests db s =
     sql_exists (sql_where
       (\<lambda>g. sql_and (sql_eq (g_notebook_id g) (Some (sn_id s))) (Grade_failed_tests db g))
       (grades db))"

section \<open>Scores\<close>

text \<open>
  \<^verbatim>\<open>SubmittedNotebook.score = select([func.coalesce(func.sum(Grade.score), 0.0)])
  .where(Grade.notebook_id == SubmittedNotebook.id)\<close>, and the same sum over the
  grades of a submission and of a student, each through the chain of foreign keys.
\<close>

definition SubmittedNotebook_score :: "database \<Rightarrow> submitted_notebook \<Rightarrow> real" where
  "SubmittedNotebook_score db s =
     sql_coalesce (sql_sum (map Grade_score
       (sql_where (\<lambda>g. sql_eq (g_notebook_id g) (Some (sn_id s))) (grades db)))) 0"

definition SubmittedAssignment_score :: "database \<Rightarrow> submitted_assignment \<Rightarrow> real" where
  "SubmittedAssignment_score db s =
     sql_coalesce (sql_sum (map (\<lambda>(g, n). Grade_score g)
       (sql_where
          (\<lambda>(g, n). sql_and (sql_eq (sn_assignment_id n) (Some (sa_id s)))
                             (sql_eq (g_notebook_id g) (Some (sn_id n))))
          (List.product (grades db) (submitted_notebooks db))))) 0"

definition Student_score :: "database \<Rightarrow> student \<Rightarrow> real" where
  "Student_score db s =
     sql_coalesce (sql_sum (map (\<lambda>(g, x, n). Grade_score g)
       (sql_where
          (\<lambda>(g, x, n). sql_and (sql_eq (sa_student_id x) (Some (st_id s)))
                         (sql_and (sql_eq (sn_assignment_id n) (Some (sa_id x)))
                                  (sql_eq (g_notebook_id g) (Some (sn_id n)))))
          (List.product (grades db)
             (List.product (submitted_assignments db) (submitted_notebooks db)))))) 0"

text \<open>
  The written and the code scores add \<^verbatim>\<open>GradeCell.id == Grade.cell_id\<close> and
  \<^verbatim>\<open>GradeCell.cell_type == "markdown"\<close> (or \<^verbatim>\<open>"code"\<close>) to the condition.
\<close>

definition SubmittedNotebook_typed_score ::
  "cell_type \<Rightarrow> database \<Rightarrow> submitted_notebook \<Rightarrow> real" where
  "SubmittedNotebook_typed_score t db s =
     sql_coalesce (sql_sum (map (\<lambda>(g, c). Grade_score g)
       (sql_where
          (\<lambda>(g, c). sql_and (sql_eq (g_notebook_id g) (Some (sn_id s)))
                      (sql_and (sql_eq (Some (gc_id c)) (g_cell_id g))
                               (sql_eq (Some (gc_cell_type c)) (Some t))))
          (List.product (grades db) (grade_cells db))))) 0"

definition SubmittedNotebook_written_score :: "database \<Rightarrow> submitted_notebook \<Rightarrow> real" where
  "SubmittedNotebook_written_score = SubmittedNotebook_typed_score Markdown"

definition SubmittedNotebook_code_score :: "database \<Rightarrow> submitted_notebook \<Rightarrow> real" where
  "SubmittedNotebook_code_score = SubmittedNotebook_typed_score Code"

definition SubmittedAssignment_typed_score ::
  "cell_type \<Rightarrow> database \<Rightarrow> submitted_assignment \<Rightarrow> real" where
  "SubmittedAssignment_typed_score t db s =
     sql_coalesce (sql_sum (map (\<lambda>(g, n, c). Grade_score g)
       (sql_where
          (\<lambda>(g, n, c). sql_and (sql_eq (sn_assignment_id n) (Some (sa_id s)))
                         (sql_and (sql_eq (g_notebook_id g) (Some (sn_id n)))
                           (sql_and (sql_eq (Some (gc_id c)) (g_cell_id g))
                                    (sql_eq (Some (gc_cell_type c)) (Some t)))))
          (List.product (grades db)
             (List.product (submitted_notebooks db) (grade_cells db)))))) 0"

definition SubmittedAssignment_written_score :: "database \<Rightarrow> submitted_assignment \<Rightarrow> real" where
  "SubmittedAssignment_written_score = SubmittedAssignment_typed_score Markdown"

definition SubmittedAssignment_code_score :: "database \<Rightarrow> submitted_assignment \<Rightarrow> real" where
  "SubmittedAssignment_code_score = SubmittedAssignment_typed_score Code"

section \<open>Maximal scores\<close>

text \<open>
  \<^verbatim>\<open>Notebook.max_score = select([func.coalesce(func.sum(GradeCell.max_score), 0.0)])
  .where(GradeCell.notebook_id == Notebook.id)\<close>
\<close>

definition Notebook_max_score :: "database \<Rightarrow> notebook \<Rightarrow> real" where
  "Notebook_max_score db n =
     sql_coalesce (sql_sum (map (\<lambda>c. Some (gc_max_score c))
       (sql_where (\<lambda>c. sql_eq (gc_notebook_id c) (Some (nb_id n))) (grade_cells db)))) 0"

text \<open>
  \<^verbatim>\<open>SubmittedNotebook.max_score = select([Notebook.max_score])
  .where(SubmittedNotebook.notebook_id == Notebook.id)\<close>: a scalar subquery on
  \<^verbatim>\<open>notebook\<close>, NULL when no notebook row matches.
\<close>

definition SubmittedNotebook_max_score :: "database \<Rightarrow> submitted_notebook \<Rightarrow> real option" where
  "SubmittedNotebook_max_score db s =
     sql_scalar (map (\<lambda>n. Some (Notebook_max_score db n))
       (sql_where (\<lambda>n. sql_eq (sn_notebook_id s) (Some (nb_id n))) (notebooks db)))"

text \<open>
  \<^verbatim>\<open>Assignment.max_score = select([func.coalesce(func.sum(GradeCell.max_score), 0.0)])
  .where(and_(Notebook.assignment_id == Assignment.id,
  GradeCell.notebook_id == Notebook.id))\<close>: the sum ranges over the product of
  \<^verbatim>\<open>grade_cell\<close> and \<^verbatim>\<open>notebook\<close>.
\<close>

definition Assignment_max_score :: "database \<Rightarrow> assignment \<Rightarrow> real" where
  "Assignment_max_score db a =
     sql_coalesce (sql_sum (map (\<lambda>(c, n). Some (gc_max_score c))
       (sql_where
          (\<lambda>(c, n). sql_and (sql_eq (nb_assignment_id n) (Some (a_id a)))
                             (sql_eq (gc_notebook_id c) (Some (nb_id n))))
          (List.product (grade_cells db) (notebooks db))))) 0"

definition SubmittedAssignment_max_score ::
  "database \<Rightarrow> submitted_assignment \<Rightarrow> real option" where
  "SubmittedAssignment_max_score db s =
     sql_scalar (map (\<lambda>a. Some (Assignment_max_score db a))
       (sql_where (\<lambda>a. sql_eq (sa_assignment_id s) (Some (a_id a))) (assignments db)))"

text \<open>
  \<^verbatim>\<open>Student.max_score = select([func.coalesce(func.sum(Assignment.max_score), 0.0)])\<close>
  has no \<^verbatim>\<open>where\<close>: it ranges over every row of \<^verbatim>\<open>assignment\<close> and does not
  mention the student.
\<close>

definition Student_max_score :: "database \<Rightarrow> student \<Rightarrow> real" where
  "Student_max_score db s =
     sql_coalesce (sql_sum (map (\<lambda>a. Some (Assignment_max_score db a)) (assignments db))) 0"

text \<open>
  The written and code variants add \<^verbatim>\<open>GradeCell.cell_type == "markdown"\<close> (or
  \<^verbatim>\<open>"code"\<close>) to the condition of the sum.
\<close>

definition Notebook_max_typed_score :: "cell_type \<Rightarrow> database \<Rightarrow> notebook \<Rightarrow> real" where
  "Notebook_max_typed_score t db n =
     sql_coalesce (sql_sum (map (\<lambda>c. Some (gc_max_score c))
       (sql_where
          (\<lambda>c. sql_and (sql_eq (gc_notebook_id c) (Some (nb_id n)))
                        (sql_eq (Some (gc_cell_type c)) (Some t)))
          (grade_cells db)))) 0"

definition Notebook_max_written_score :: "database \<Rightarrow> notebook \<Rightarrow> real" where
  "Notebook_max_written_score = Notebook_max_typed_score Markdown"

definition Notebook_max_code_score :: "database \<Rightarrow> notebook \<Rightarrow> real" where
  "Notebook_max_code_score = Notebook_max_typed_score Code"

definition SubmittedNotebook_max_typed_score ::
  "cell_type \<Rightarrow> database \<Rightarrow> submitted_notebook \<Rightarrow> real option" where
  "SubmittedNotebook_max_typed_score t db s =
     sql_scalar (map (\<lambda>n. Some (Notebook_max_typed_score t db n))
       (sql_where (\<lambda>n. sql_eq (Some (nb_id n)) (sn_notebook_id s)) (notebooks db)))"

definition SubmittedNotebook_max_written_score ::
  "database \<Rightarrow> submitted_notebook \<Rightarrow> real option" where
  "SubmittedNotebook_max_written_score = SubmittedNotebook_max_typed_score Markdown"

definition SubmittedNotebook_max_code_score ::
  "database \<Rightarrow> submitted_notebook \<Rightarrow> real option" where
  "SubmittedNotebook_max_code_score = SubmittedNotebook_max_typed_score Code"

definition Assignment_max_typed_score :: "cell_type \<Rightarrow> database \<Rightarrow> assignment \<Rightarrow> real" where
  "Assignment_max_typed_score t db a =
     sql_coalesce (sql_sum (map (\<lambda>(c, n). Some (gc_max_score c))
       (sql_where
          (\<lambda>(c, n). sql_and (sql_eq (nb_assignment_id n) (Some (a_id a)))
                      (sql_and (sql_eq (gc_notebook_id c) (Some (nb_id n)))
                               (sql_eq (Some (gc_cell_type c)) (Some t))))
          (List.product (grade_cells db) (notebooks db))))) 0"

definition Assignment_max_written_score :: "database \<Rightarrow> assignment \<Rightarrow> real" where
  "Assignment_max_written_score = Assignment_max_typed_score Markdown"

definition Assignment_max_code_score :: "database \<Rightarrow> assignment \<Rightarrow> real" where
  "Assignment_max_code_score = Assignment_max_typed_score Code"

definition SubmittedAssignment_max_typed_score ::
  "cell_type \<Rightarrow> database \<Rightarrow> submitted_assignment \<Rightarrow> real option" where
  "SubmittedAssignment_max_typed_score t db s =
     sql_scalar (map (\<lambda>a. Some (Assignment_max_typed_score t db a))
       (sql_where (\<lambda>a. sql_eq (Some (a_id a)) (sa_assignment_id s)) (assignments db)))"

definition SubmittedAssignment_max_written_score ::
  "database \<Rightarrow> submitted_assignment \<Rightarrow> real option" where
  "SubmittedAssignment_max_written_score = SubmittedAssignment_max_typed_score Markdown"

definition SubmittedAssignment_max_code_score ::
  "database \<Rightarrow> submitted_assignment \<Rightarrow> real option" where
  "SubmittedAssignment_max_code_score = SubmittedAssignment_max_typed_score Code"

section \<open>Number of submissions\<close>

text \<open>
  \<^verbatim>\<open>Assignment.num_submissions = select([func.count(SubmittedAssignment.id)])
  .where(SubmittedAssignment.assignment_id == Assignment.id)\<close>, and likewise for a
  notebook; the counted column is a primary key, never NULL.
\<close>

definition Assignment_num_submissions :: "database \<Rightarrow> assignment \<Rightarrow> nat" where
  "Assignment_num_submissions db a =
     length (sql_where (\<lambda>s. sql_eq (sa_assignment_id s) (Some (a_id a)))
       (submitted_assignments db))"

definition Notebook_num_submissions :: "database \<Rightarrow> notebook \<Rightarrow> nat" where
  "Notebook_num_submissions db n =
     length (sql_where (\<lambda>s. sql_eq (sn_notebook_id s) (Some (nb_id n)))
       (submitted_notebooks db))"

section \<open>Descendant grade cells\<close>

text \<open>
  The grade cells below a container, found by walking down the relationships: the grade
  cells of the notebooks of an assignment, and, for a student as the specification
  words it, the grade cells of the assignments the student has a submission for.
\<close>

definition Assignment_grade_cells :: "database \<Rightarrow> assignment \<Rightarrow> grade_cell list" where
  "Assignment_grade_cells db a =
     concat (map (Notebook_grade_cells db) (Assignment_notebooks db a))"

definition Student_descendant_grade_cells :: "database \<Rightarrow> student \<Rightarrow> grade_cell list" where
  "Student_descendant_grade_cells db s =
     concat (map (\<lambda>x. case SubmittedAssignment_assignment db x of
                         None \<Rightarrow> []
                       | Some a \<Rightarrow> Assignment_grade_cells db a)
                 (Student_submissions db s))"

definition total_max_score :: "grade_cell list \<Rightarrow> real" where
  "total_max_score cs = sum_list (map gc_max_score cs)"

definition of_cell_type :: "cell_type \<Rightarrow> grade_cell list \<Rightarrow> grade_cell list" where
  "of_cell_type t cs = filter (\<lambda>c. gc_cell_type c = t) cs"

section \<open>The session of the gradebook\<close>

text \<open>
  \<^verbatim>\<open>Gradebook.__init__\<close> opens \<^verbatim>\<open>self.db = scoped_session(sessionmaker(autoflush=True,
  bind=engine))\<close>.  The state of a gradebook is the rows committed to the database, the
  rows as the open transaction of the session sees them (the committed rows with the
  changes made since the last commit), and whether a flush of the session has failed
  without a \<^verbatim>\<open>rollback()\<close> since.  In that last state the transaction of the session
  is inactive: the database has dropped its changes, and the session refuses every
  query and commit with \<^verbatim>\<open>InvalidRequestError\<close> until \<^verbatim>\<open>rollback()\<close> is called.
\<close>

datatype error =
    MissingEntry
  | InvalidEntry
  | NoResultFound
  | MultipleResultsFound
  | IntegrityError
  | InvalidRequestError
  | TypeError
  | AttributeError
  | ZeroDivisionError
  | ValueError

record gradebook =
  gb_store :: database
  gb_session :: database
  gb_inactive :: bool

text \<open>
  The constraints of the schema that a flush checks: every primary key is unique in its
  table, \<^verbatim>\<open>Assignment.name\<close> is unique, and each \<^verbatim>\<open>UniqueConstraint\<close> of
  \<^verbatim>\<open>__table_args__\<close> holds (a row with NULL in a constrained column conflicts with no
  row).  The columns declared \<^verbatim>\<open>nullable=False\<close> cannot hold NULL by their type.
  Foreign keys are declared but not enforced by the default SQLite engine, and no
  constraint here depends on them.
\<close>

definition unique_on :: "('r \<Rightarrow> 'k option) \<Rightarrow> 'r list \<Rightarrow> bool" where
  "unique_on key rows = distinct (List.map_filter key rows)"

definition pair_key :: "'a option \<Rightarrow> 'b option \<Rightarrow> ('a \<times> 'b) option" where
  "pair_key x y =
     (case x of None \<Rightarrow> None | Some a \<Rightarrow> (case y of None \<Rightarrow> None | Some b \<Rightarrow> Some (a, b)))"

definition integrity_ok :: "database \<Rightarrow> bool" where
  "integrity_ok db \<longleftrightarrow>
     distinct (map a_id (assignments db)) \<and>
     distinct (map a_name (assignments db)) \<and>
     distinct (map nb_id (notebooks db)) \<and>
     unique_on (\<lambda>n. pair_key (Some (nb_name n)) (nb_assignment_id n)) (notebooks db) \<and>
     distinct (map gc_id (grade_cells db)) \<and>
     unique_on (\<lambda>c. pair_key (Some (gc_name c)) (gc_notebook_id c)) (grade_cells db) \<and>
     distinct (map sc_id (solution_cells db)) \<and>
     unique_on (\<lambda>c. pair_key (Some (sc_name c)) (sc_notebook_id c)) (solution_cells db) \<and>
     distinct (map st_id (students db)) \<and>
     distinct (map sa_id (submitted_assignments db)) \<and>
     unique_on (\<lambda>s. pair_key (sa_assignment_id s) (sa_student_id s))
       (submitted_assignments db) \<and>
     distinct (map sn_id (submitted_notebooks db)) \<and>
     unique_on (\<lambda>s. pair_key (sn_notebook_id s) (sn_assignment_id s))
       (submitted_notebooks db) \<and>
     distinct (map g_id (grades db)) \<and>
     unique_on (\<lambda>g. pair_key (g_cell_id g) (g_notebook_id g)) (grades db) \<and>
     distinct (map cm_id (comments db)) \<and>
     unique_on (\<lambda>c. pair_key (cm_cell_id c) (cm_notebook_id c)) (comments db)"

text \<open>
  \<^verbatim>\<open>self.db.commit()\<close> flushes the changes of the session and commits them; a flush
  that violates a constraint raises \<^verbatim>\<open>IntegrityError\<close> (or \<^verbatim>\<open>FlushError\<close>, which the
  facade handles alike), drops the changes of the transaction and leaves the session
  inactive.  \<^verbatim>\<open>self.db.rollback()\<close> discards the changes of the session and makes it
  usable again.
\<close>

definition session_commit :: "gradebook \<Rightarrow> (error + unit) \<times> gradebook" where
  "session_commit gb =
     (if gb_inactive gb then (Inl InvalidRequestError, gb)
      else if integrity_ok (gb_session gb) then (Inr (), gb\<lparr>gb_store := gb_session gb\<rparr>)
      else (Inl IntegrityError, gb\<lparr>gb_session := gb_store gb, gb_inactive := True\<rparr>))"

definition session_rollback :: "gradebook \<Rightarrow> gradebook" where
  "session_rollback gb = gb\<lparr>gb_session := gb_store gb, gb_inactive := False\<rparr>"

text \<open>
  The pattern that ends almost every mutation of the facade:
  \<^verbatim>\<open>try: self.db.commit()
  except (IntegrityError, FlushError) as e: self.db.rollback(); raise InvalidEntry(*e.args)\<close>
\<close>

definition commit_or_rollback :: "gradebook \<Rightarrow> (error + unit) \<times> gradebook" where
  "commit_or_rollback gb =
     (case session_commit gb of
        (Inl e, gb') \<Rightarrow>
          (if e = IntegrityError then (Inl InvalidEntry, session_rollback gb') else (Inl e, gb'))
      | (Inr u, gb') \<Rightarrow> (Inr u, gb'))"

text \<open>
  A query of the session: \<^verbatim>\<open>self.db.query(...)\<close> reads the rows of the open
  transaction.  \<^verbatim>\<open>.one()\<close> returns the only row, raises \<^verbatim>\<open>NoResultFound\<close> on no row and
  \<^verbatim>\<open>MultipleResultsFound\<close> on several; the \<^verbatim>\<open>find_*\<close> methods turn the first into
  \<^verbatim>\<open>MissingEntry\<close> and let the second pass.
\<close>

definition session_query :: "gradebook \<Rightarrow> (database \<Rightarrow> error + 'r) \<Rightarrow> error + 'r" where
  "session_query gb q = (if gb_inactive gb then Inl InvalidRequestError else q (gb_session gb))"

definition query_one :: "'r list \<Rightarrow> error + 'r" where
  "query_one rows =
     (case rows of [] \<Rightarrow> Inl NoResultFound | [r] \<Rightarrow> Inr r | _ # _ # _ \<Rightarrow> Inl MultipleResultsFound)"

definition or_missing_entry :: "error + 'r \<Rightarrow> error + 'r" where
  "or_missing_entry r = (case r of Inl e \<Rightarrow> Inl (if e = NoResultFound then MissingEntry else e)
                                 | Inr x \<Rightarrow> Inr x)"

section \<open>Lookups of the facade\<close>

definition find_student :: "gradebook \<Rightarrow> ident \<Rightarrow> error + student" where
  "find_student gb student_id =
     session_query gb (\<lambda>db. or_missing_entry (query_one
       (filter (\<lambda>s. st_id s = student_id) (students db))))"

definition find_assignment :: "gradebook \<Rightarrow> string \<Rightarrow> error + assignment" where
  "find_assignment gb name =
     session_query gb (\<lambda>db. or_missing_entry (query_one
       (filter (\<lambda>a. a_name a = name) (assignments db))))"

text \<open>
  \<^verbatim>\<open>self.db.query(Notebook).join(Assignment, Assignment.id == Notebook.assignment_id)
  .filter(Notebook.name == name, Assignment.name == assignment).one()\<close>
\<close>

definition find_notebook :: "gradebook \<Rightarrow> string \<Rightarrow> string \<Rightarrow> error + notebook" where
  "find_notebook gb name assignment =
     session_query gb (\<lambda>db. or_missing_entry (query_one (map fst
       (filter (\<lambda>(n, a). sql_eq (Some (a_id a)) (nb_assignment_id n) = Some True \<and>
                          nb_name n = name \<and> a_name a = assignment)
          (List.product (notebooks db) (assignments db))))))"

definition find_grade_cell :: "gradebook \<Rightarrow> string \<Rightarrow> string \<Rightarrow> string \<Rightarrow> error + grade_cell" where
  "find_grade_cell gb name notebook assignment =
     session_query gb (\<lambda>db. or_missing_entry (query_one (map fst
       (filter (\<lambda>(c, n, a). sql_eq (Some (nb_id n)) (gc_notebook_id c) = Some True \<and>
                             sql_eq (Some (a_id a)) (nb_assignment_id n) = Some True \<and>
                             gc_name c = name \<and> nb_name n = notebook \<and> a_name a = assignment)
          (List.product (grade_cells db) (List.product (notebooks db) (assignments db)))))))"

definition find_solution_cell ::
  "gradebook \<Rightarrow> string \<Rightarrow> string \<Rightarrow> string \<Rightarrow> error + solution_cell" where
  "find_solution_cell gb name notebook assignment =
     session_query gb (\<lambda>db. or_missing_entry (query_one (map fst
       (filter (\<lambda>(c, n, a). sql_eq (Some (nb_id n)) (sc_notebook_id c) = Some True \<and>
                             sql_eq (Some (a_id a)) (nb_assignment_id n) = Some True \<and>
                             sc_name c = name \<and> nb_name n = notebook \<and> a_name a = assignment)
          (List.product (solution_cells db) (List.product (notebooks db) (assignments db)))))))"

text \<open>
  \<^verbatim>\<open>self.db.query(SubmittedAssignment)
  .join(Assignment, Assignment.id == SubmittedAssignment.assignment_id)
  .join(Student, Student.id == SubmittedAssignment.student_id)
  .filter(Assignment.name == assignment, Student.id == student).one()\<close>
\<close>

definition find_submission :: "gradebook \<Rightarrow> string \<Rightarrow> ident \<Rightarrow> error + submitted_assignment" where
  "find_submission gb assignment student =
     session_query gb (\<lambda>db. or_missing_entry (query_one (map fst
       (filter (\<lambda>(s, a, x). sql_eq (Some (a_id a)) (sa_assignment_id s) = Some True \<and>
                             sql_eq (Some (st_id x)) (sa_student_id s) = Some True \<and>
                             a_name a = assignment \<and> st_id x = student)
          (List.product (submitted_assignments db)
             (List.product (assignments db) (students db)))))))"

section \<open>Students\<close>

text \<open>
  The keyword arguments of a call are a list of column assignments; \<^verbatim>\<open>Student(id=...,
  **kwargs)\<close> starts from NULL columns and assigns each.
\<close>

datatype student_attr =
    First_name "string option"
  | Last_name "string option"
  | Email "string option"

fun set_student_attr :: "student_attr \<Rightarrow> student \<Rightarrow> student" where
  "set_student_attr (First_name v) s = s\<lparr>st_first_name := v\<rparr>"
| "set_student_attr (Last_name v) s = s\<lparr>st_last_name := v\<rparr>"
| "set_student_attr (Email v) s = s\<lparr>st_email := v\<rparr>"

definition new_student :: "ident \<Rightarrow> student_attr list \<Rightarrow> student" where
  "new_student student_id kwargs =
     fold set_student_attr kwargs
       \<lparr>st_id = student_id, st_first_name = None, st_last_name = None, st_email = None\<rparr>"

definition add_student ::
  "gradebook \<Rightarrow> ident \<Rightarrow> student_attr list \<Rightarrow> (error + student) \<times> gradebook" where
  "add_student gb student_id kwargs =
     (let student = new_student student_id kwargs;
          db = gb_session gb;
          gb1 = gb\<lparr>gb_session := db\<lparr>students := students db @ [student]\<rparr>\<rparr>
      in case commit_or_rollback gb1 of
           (Inl e, gb2) \<Rightarrow> (Inl e, gb2)
         | (Inr _, gb2) \<Rightarrow> (Inr student, gb2))"

section \<open>Grade cells and solution cells\<close>

text \<open>
  The keyword arguments a caller passes for a cell: the columns of the cell other than
  its name, which is a parameter of the facade's methods.  \<^verbatim>\<open>cell_type\<close> (and
  \<^verbatim>\<open>max_score\<close> of a grade cell) is declared \<^verbatim>\<open>nullable=False\<close>: a new cell built
  without it cannot be flushed, so building the row is partial.  The new row takes its
  \<^verbatim>\<open>notebook_id\<close> from the \<^verbatim>\<open>notebook=\<close> argument of the constructor and its \<^verbatim>\<open>id\<close>
  from \<^verbatim>\<open>new_uuid()\<close>, here the argument \<open>uuid\<close>.
\<close>

datatype solution_cell_attr =
    SC_cell_type cell_type
  | SC_source "string option"
  | SC_checksum "string option"
  | SC_notebook_id "ident option"

fun set_solution_cell_attr :: "solution_cell_attr \<Rightarrow> solution_cell \<Rightarrow> solution_cell" where
  "set_solution_cell_attr (SC_cell_type v) c = c\<lparr>sc_cell_type := v\<rparr>"
| "set_solution_cell_attr (SC_source v) c = c\<lparr>sc_source := v\<rparr>"
| "set_solution_cell_attr (SC_checksum v) c = c\<lparr>sc_checksum := v\<rparr>"
| "set_solution_cell_attr (SC_notebook_id v) c = c\<lparr>sc_notebook_id := v\<rparr>"

fun solution_cell_type_of :: "solution_cell_attr \<Rightarrow> cell_type option" where
  "solution_cell_type_of (SC_cell_type v) = Some v"
| "solution_cell_type_of _ = None"

definition new_solution_cell ::
  "ident \<Rightarrow> string \<Rightarrow> notebook \<Rightarrow> solution_cell_attr list \<Rightarrow> solution_cell option" where
  "new_solution_cell uuid name nb kwargs =
     (case List.map_filter solution_cell_type_of kwargs of
        [] \<Rightarrow> None
      | t # _ \<Rightarrow>
          Some ((fold set_solution_cell_attr kwargs
                  \<lparr>sc_id = uuid, sc_name = name, sc_notebook_id = None, sc_cell_type = t,
                   sc_source = None, sc_checksum = None\<rparr>)
                \<lparr>sc_notebook_id := Some (nb_id nb)\<rparr>))"

definition add_solution_cell ::
  "gradebook \<Rightarrow> ident \<Rightarrow> string \<Rightarrow> string \<Rightarrow> string \<Rightarrow> solution_cell_attr list
     \<Rightarrow> (error + solution_cell) \<times> gradebook" where
  "add_solution_cell gb uuid name notebook assignment kwargs =
     (case find_notebook gb notebook assignment of
        Inl e \<Rightarrow> (Inl e, gb)
      | Inr nb \<Rightarrow>
          (case new_solution_cell uuid name nb kwargs of
             None \<Rightarrow> (Inl InvalidEntry, session_rollback gb)
           | Some cell \<Rightarrow>
               (let db = gb_session gb;
                    gb1 = gb\<lparr>gb_session := db\<lparr>solution_cells := solution_cells db @ [cell]\<rparr>\<rparr>
                in case commit_or_rollback gb1 of
                     (Inl e, gb2) \<Rightarrow> (Inl e, gb2)
                   | (Inr _, gb2) \<Rightarrow> (Inr cell, gb2))))"

text \<open>
  \<^verbatim>\<open>update_or_create_solution_cell\<close>: when the cell exists, each keyword argument is
  assigned to it and the session is committed; here the handler is
  \<^verbatim>\<open>except (IntegrityError, FlushError) as e: raise InvalidEntry(*e.args)\<close>, with no
  \<^verbatim>\<open>self.db.rollback()\<close>.
\<close>

definition update_or_create_solution_cell ::
  "gradebook \<Rightarrow> ident \<Rightarrow> string \<Rightarrow> string \<Rightarrow> string \<Rightarrow> solution_cell_attr list
     \<Rightarrow> (error + solution_cell) \<times> gradebook" where
  "update_or_create_solution_cell gb uuid name notebook assignment kwargs =
     (case find_solution_cell gb name notebook assignment of
        Inl e \<Rightarrow>
          (if e = MissingEntry then add_solution_cell gb uuid name notebook assignment kwargs
           else (Inl e, gb))
      | Inr cell \<Rightarrow>
          (let cell' = fold set_solution_cell_attr kwargs cell;
               db = gb_session gb;
               gb1 = gb\<lparr>gb_session := db\<lparr>solution_cells :=
                       map (\<lambda>c. if sc_id c = sc_id cell then cell' else c) (solution_cells db)\<rparr>\<rparr>
           in case session_commit gb1 of
                (Inl e, gb2) \<Rightarrow> (Inl (if e = IntegrityError then InvalidEntry else e), gb2)
              | (Inr _, gb2) \<Rightarrow> (Inr cell', gb2)))"

datatype grade_cell_attr =
    GC_max_score real
  | GC_cell_type cell_type
  | GC_source "string option"
  | GC_checksum "string option"
  | GC_notebook_id "ident option"

fun set_grade_cell_attr :: "grade_cell_attr \<Rightarrow> grade_cell \<Rightarrow> grade_cell" where
  "set_grade_cell_attr (GC_max_score v) c = c\<lparr>gc_max_score := v\<rparr>"
| "set_grade_cell_attr (GC_cell_type v) c = c\<lparr>gc_cell_type := v\<rparr>"
| "set_grade_cell_attr (GC_source v) c = c\<lparr>gc_source := v\<rparr>"
| "set_grade_cell_attr (GC_checksum v) c = c\<lparr>gc_checksum := v\<rparr>"
| "set_grade_cell_attr (GC_notebook_id v) c = c\<lparr>gc_notebook_id := v\<rparr>"

fun grade_cell_type_of :: "grade_cell_attr \<Rightarrow> cell_type option" where
  "grade_cell_type_of (GC_cell_type v) = Some v"
| "grade_cell_type_of _ = None"

fun grade_cell_max_score_of :: "grade_cell_attr \<Rightarrow> real option" where
  "grade_cell_max_score_of (GC_max_score v) = Some v"
| "grade_cell_max_score_of _ = None"

definition new_grade_cell ::
  "ident \<Rightarrow> string \<Rightarrow> notebook \<Rightarrow> grade_cell_attr list \<Rightarrow> grade_cell option" where
  "new_grade_cell uuid name nb kwargs =
     (case (List.map_filter grade_cell_max_score_of kwargs,
            List.map_filter grade_cell_type_of kwargs) of
        (m # _, t # _) \<Rightarrow>
          Some ((fold set_grade_cell_attr kwargs
                  \<lparr>gc_id = uuid, gc_name = name, gc_max_score = m, gc_cell_type = t,
                   gc_source = None, gc_checksum = None, gc_notebook_id = None\<rparr>)
                \<lparr>gc_notebook_id := Some (nb_id nb)\<rparr>)
      | _ \<Rightarrow> None)"

definition add_grade_cell ::
  "gradebook \<Rightarrow> ident \<Rightarrow> string \<Rightarrow> string \<Rightarrow> string \<Rightarrow> grade_cell_attr list
     \<Rightarrow> (error + grade_cell) \<times> gradebook" where
  "add_grade_cell gb uuid name notebook assignment kwargs =
     (case find_notebook gb notebook assignment of
        Inl e \<Rightarrow> (Inl e, gb)
      | Inr nb \<Rightarrow>
          (case new_grade_cell uuid name nb kwargs of
             None \<Rightarrow> (Inl InvalidEntry, session_rollback gb)
           | Some cell \<Rightarrow>
               (let db = gb_session gb;
                    gb1 = gb\<lparr>gb_session := db\<lparr>grade_cells := grade_cells db @ [cell]\<rparr>\<rparr>
                in case commit_or_rollback gb1 of
                     (Inl e, gb2) \<Rightarrow> (Inl e, gb2)
                   | (Inr _, gb2) \<Rightarrow> (Inr cell, gb2))))"

text \<open>
  \<^verbatim>\<open>update_or_create_grade_cell\<close> is the same method for grade cells, and its
  handler does call \<^verbatim>\<open>self.db.rollback()\<close>.
\<close>

definition update_or_create_grade_cell ::
  "gradebook \<Rightarrow> ident \<Rightarrow> string \<Rightarrow> string \<Rightarrow> string \<Rightarrow> grade_cell_attr list
     \<Rightarrow> (error + grade_cell) \<times> gradebook" where
  "update_or_create_grade_cell gb uuid name notebook assignment kwargs =
     (case find_grade_cell gb name notebook assignment of
        Inl e \<Rightarrow>
          (if e = MissingEntry then add_grade_cell gb uuid name notebook assignment kwargs
           else (Inl e, gb))
      | Inr cell \<Rightarrow>
          (let cell' = fold set_grade_cell_attr kwargs cell;
               db = gb_session gb;
               gb1 = gb\<lparr>gb_session := db\<lparr>grade_cells :=
                       map (\<lambda>c. if gc_id c = gc_id cell then cell' else c) (grade_cells db)\<rparr>\<rparr>
           in case commit_or_rollback gb1 of
                (Inl e, gb2) \<Rightarrow> (Inl e, gb2)
              | (Inr _, gb2) \<Rightarrow> (Inr cell', gb2)))"

section \<open>Submissions\<close>

text \<open>
  \<^verbatim>\<open>add_submission\<close> builds the submission and mirrors the assignment: one
  \<^verbatim>\<open>SubmittedNotebook(notebook=notebook, assignment=submission)\<close> per notebook, one
  \<^verbatim>\<open>Grade(cell=grade_cell, notebook=nb)\<close> per grade cell and one
  \<^verbatim>\<open>Comment(cell=solution_cell, notebook=nb)\<close> per solution cell; the columns the
  constructors do not name stay NULL.  Every new row draws its \<^verbatim>\<open>id\<close> from
  \<^verbatim>\<open>new_uuid()\<close>: \<open>uuid\<close> is the sequence of the identifiers drawn, \<open>k\<close> the number of
  those already used.
\<close>

definition new_grades :: "(nat \<Rightarrow> ident) \<Rightarrow> nat \<Rightarrow> ident \<Rightarrow> grade_cell list \<Rightarrow> grade list" where
  "new_grades uuid k nb cells =
     map (\<lambda>(i, c). \<lparr>g_id = uuid (k + i), g_cell_id = Some (gc_id c), g_notebook_id = Some nb,
                     g_auto_score = None, g_manual_score = None\<rparr>)
         (enumerate 0 cells)"

definition new_comments ::
  "(nat \<Rightarrow> ident) \<Rightarrow> nat \<Rightarrow> ident \<Rightarrow> solution_cell list \<Rightarrow> comment list" where
  "new_comments uuid k nb cells =
     map (\<lambda>(i, c). \<lparr>cm_id = uuid (k + i), cm_cell_id = Some (sc_id c),
                     cm_notebook_id = Some nb, cm_comment = None\<rparr>)
         (enumerate 0 cells)"

fun mirror_notebooks ::
  "database \<Rightarrow> (nat \<Rightarrow> ident) \<Rightarrow> nat \<Rightarrow> ident \<Rightarrow> notebook list
     \<Rightarrow> submitted_notebook list \<times> grade list \<times> comment list" where
  "mirror_notebooks db uuid k submission [] = ([], [], [])"
| "mirror_notebooks db uuid k submission (notebook # rest) =
     (let nb = \<lparr>sn_id = uuid k, sn_notebook_id = Some (nb_id notebook),
                sn_assignment_id = Some submission\<rparr>;
          gcs = Notebook_grade_cells db notebook;
          scs = Notebook_solution_cells db notebook;
          gs = new_grades uuid (k + 1) (sn_id nb) gcs;
          cs = new_comments uuid (k + 1 + length gcs) (sn_id nb) scs;
          (nbs, gs', cs') =
            mirror_notebooks db uuid (k + 1 + length gcs + length scs) submission rest
      in (nb # nbs, gs @ gs', cs @ cs'))"

text \<open>
  The keyword arguments of a submission: \<^verbatim>\<open>timestamp\<close>, which \<^verbatim>\<open>add_submission\<close>
  passes through \<^verbatim>\<open>utils.parse_utc\<close> before anything else, and \<^verbatim>\<open>extension\<close>.
  \<^verbatim>\<open>nbgrader.utils\<close> is not part of the sources at hand, so \<open>parse_utc\<close> is a parameter:
  it maps what the caller passed to a time, to \<open>None\<close>, or to the exception it raises.
\<close>

record 'ts submission_kwargs =
  kw_timestamp :: "'ts option"
  kw_extension :: "int option"

definition add_submission ::
  "gradebook \<Rightarrow> (nat \<Rightarrow> ident) \<Rightarrow> ('ts \<Rightarrow> error + int option) \<Rightarrow> string \<Rightarrow> ident
     \<Rightarrow> 'ts submission_kwargs \<Rightarrow> (error + submitted_assignment) \<times> gradebook" where
  "add_submission gb uuid parse_utc assignment student kwargs =
     (case (case kw_timestamp kwargs of None \<Rightarrow> Inr None | Some ts \<Rightarrow> parse_utc ts) of
        Inl e \<Rightarrow> (Inl e, gb)
      | Inr timestamp \<Rightarrow>
     (case find_assignment gb assignment of
        Inl e \<Rightarrow> (Inl e, gb)
      | Inr a \<Rightarrow>
     (case find_student gb student of
        Inl e \<Rightarrow> (Inl e, gb)
      | Inr s \<Rightarrow>
          (let db = gb_session gb;
               submission = \<lparr>sa_id = uuid 0, sa_assignment_id = Some (a_id a),
                  sa_student_id = Some (st_id s), sa_timestamp = timestamp,
                  sa_extension = kw_extension kwargs\<rparr>;
               (nbs, gs, cs) =
                  mirror_notebooks db uuid 1 (sa_id submission) (Assignment_notebooks db a);
               gb1 = gb\<lparr>gb_session := db\<lparr>
                       submitted_assignments := submitted_assignments db @ [submission],
                       submitted_notebooks := submitted_notebooks db @ nbs,
                       grades := grades db @ gs,
                       comments := comments db @ cs\<rparr>\<rparr>
           in case commit_or_rollback gb1 of
                (Inl e, gb2) \<Rightarrow> (Inl e, gb2)
              | (Inr _, gb2) \<Rightarrow> (Inr submission, gb2)))))"

text \<open>
  \<^verbatim>\<open>self.db.delete(row)\<close> deletes the row of that primary key.  When the deleted row
  still has rows in one of its relationships (a grade of a deleted grade cell, say),
  SQLAlchemy's flush sets their foreign key to NULL; the model leaves those rows as they
  are, so the same rows remain, and they still show the key they had.
  \<^verbatim>\<open>remove_submission\<close> deletes, for every notebook of the submission, its grades, its
  comments and the notebook, then the submission, and commits.
\<close>

definition delete_grade :: "grade \<Rightarrow> database \<Rightarrow> database" where
  "delete_grade g db = db\<lparr>grades := filter (\<lambda>x. g_id x \<noteq> g_id g) (grades db)\<rparr>"

definition delete_comment :: "comment \<Rightarrow> database \<Rightarrow> database" where
  "delete_comment c db = db\<lparr>comments := filter (\<lambda>x. cm_id x \<noteq> cm_id c) (comments db)\<rparr>"

definition delete_submitted_notebook :: "submitted_notebook \<Rightarrow> database \<Rightarrow> database" where
  "delete_submitted_notebook n db =
     db\<lparr>submitted_notebooks := filter (\<lambda>x. sn_id x \<noteq> sn_id n) (submitted_notebooks db)\<rparr>"

definition delete_submitted_assignment :: "submitted_assignment \<Rightarrow> database \<Rightarrow> database" where
  "delete_submitted_assignment s db =
     db\<lparr>submitted_assignments := filter (\<lambda>x. sa_id x \<noteq> sa_id s) (submitted_assignments db)\<rparr>"

definition delete_grade_cell :: "grade_cell \<Rightarrow> database \<Rightarrow> database" where
  "delete_grade_cell c db = db\<lparr>grade_cells := filter (\<lambda>x. gc_id x \<noteq> gc_id c) (grade_cells db)\<rparr>"

definition delete_solution_cell :: "solution_cell \<Rightarrow> database \<Rightarrow> database" where
  "delete_solution_cell c db =
     db\<lparr>solution_cells := filter (\<lambda>x. sc_id x \<noteq> sc_id c) (solution_cells db)\<rparr>"

definition delete_notebook :: "notebook \<Rightarrow> database \<Rightarrow> database" where
  "delete_notebook n db = db\<lparr>notebooks := filter (\<lambda>x. nb_id x \<noteq> nb_id n) (notebooks db)\<rparr>"

definition delete_assignment :: "assignment \<Rightarrow> database \<Rightarrow> database" where
  "delete_assignment a db = db\<lparr>assignments := filter (\<lambda>x. a_id x \<noteq> a_id a) (assignments db)\<rparr>"

definition remove_submitted_notebook :: "submitted_notebook \<Rightarrow> database \<Rightarrow> database" where
  "remove_submitted_notebook notebook db =
     (let db1 = fold delete_grade (SubmittedNotebook_grades db notebook) db;
          db2 = fold delete_comment (SubmittedNotebook_comments db1 notebook) db1
      in delete_submitted_notebook notebook db2)"

definition remove_submission :: "gradebook \<Rightarrow> string \<Rightarrow> ident \<Rightarrow> (error + unit) \<times> gradebook" where
  "remove_submission gb assignment student =
     (case find_submission gb assignment student of
        Inl e \<Rightarrow> (Inl e, gb)
      | Inr submission \<Rightarrow>
          (let db = gb_session gb;
               db1 = fold remove_submitted_notebook (SubmittedAssignment_notebooks db submission) db;
               db2 = delete_submitted_assignment submission db1
           in commit_or_rollback (gb\<lparr>gb_session := db2\<rparr>)))"

text \<open>
  \<^verbatim>\<open>remove_assignment\<close> first removes every submission of the assignment, each with
  its own commit: \<^verbatim>\<open>for submission in assignment.submissions:
  self.remove_submission(name, submission.student.id)\<close>.  Then it deletes the grade cells,
  the solution cells and the notebooks of the assignment and the assignment, and commits.
  The submissions are taken in the order of the table; the database may hand them over
  in another order, which matters only for what a failing removal leaves behind.
\<close>

fun remove_submissions ::
  "gradebook \<Rightarrow> string \<Rightarrow> submitted_assignment list \<Rightarrow> (error + unit) \<times> gradebook" where
  "remove_submissions gb name [] = (Inr (), gb)"
| "remove_submissions gb name (submission # rest) =
     (case SubmittedAssignment_student (gb_session gb) submission of
        None \<Rightarrow> (Inl AttributeError, gb)
      | Some student \<Rightarrow>
          (case remove_submission gb name (st_id student) of
             (Inl e, gb') \<Rightarrow> (Inl e, gb')
           | (Inr _, gb') \<Rightarrow> remove_submissions gb' name rest))"

definition remove_notebook :: "notebook \<Rightarrow> database \<Rightarrow> database" where
  "remove_notebook notebook db =
     (let db1 = fold delete_grade_cell (Notebook_grade_cells db notebook) db;
          db2 = fold delete_solution_cell (Notebook_solution_cells db1 notebook) db1
      in delete_notebook notebook db2)"

definition remove_assignment :: "gradebook \<Rightarrow> string \<Rightarrow> (error + unit) \<times> gradebook" where
  "remove_assignment gb name =
     (case find_assignment gb name of
        Inl e \<Rightarrow> (Inl e, gb)
      | Inr assignment \<Rightarrow>
          (case remove_submissions gb name (Assignment_submissions (gb_session gb) assignment) of
             (Inl e, gb1) \<Rightarrow> (Inl e, gb1)
           | (Inr _, gb1) \<Rightarrow>
               (let db = gb_session gb1;
                    db1 = fold remove_notebook (Assignment_notebooks db assignment) db;
                    db2 = delete_assignment assignment db1
                in commit_or_rollback (gb1\<lparr>gb_session := db2\<rparr>))))"

section \<open>Rows that refer to an assignment\<close>

text \<open>
  A row refers to an assignment directly when its foreign key is the assignment's
  \<^verbatim>\<open>id\<close>, and transitively when a foreign key of it names a row that refers to the
  assignment.  The chain is resolved in a given database: a notebook and a submission
  refer to their assignment; a grade cell and a solution cell to their notebook; a
  submitted notebook to its submission and to the notebook it copies; a grade and a
  comment to their submitted notebook and to their cell.
\<close>

definition refers_notebook :: "assignment \<Rightarrow> notebook \<Rightarrow> bool" where
  "refers_notebook a n \<longleftrightarrow> nb_assignment_id n = Some (a_id a)"

definition refers_submission :: "assignment \<Rightarrow> submitted_assignment \<Rightarrow> bool" where
  "refers_submission a s \<longleftrightarrow> sa_assignment_id s = Some (a_id a)"

definition refers_grade_cell :: "database \<Rightarrow> assignment \<Rightarrow> grade_cell \<Rightarrow> bool" where
  "refers_grade_cell db a c \<longleftrightarrow>
     list_ex (\<lambda>n. refers_notebook a n \<and> gc_notebook_id c = Some (nb_id n)) (notebooks db)"

definition refers_solution_cell :: "database \<Rightarrow> assignment \<Rightarrow> solution_cell \<Rightarrow> bool" where
  "refers_solution_cell db a c \<longleftrightarrow>
     list_ex (\<lambda>n. refers_notebook a n \<and> sc_notebook_id c = Some (nb_id n)) (notebooks db)"

definition refers_submitted_notebook ::
  "database \<Rightarrow> assignment \<Rightarrow> submitted_notebook \<Rightarrow> bool" where
  "refers_submitted_notebook db a x \<longleftrightarrow>
     list_ex (\<lambda>s. refers_submission a s \<and> sn_assignment_id x = Some (sa_id s))
       (submitted_assignments db) \<or>
     list_ex (\<lambda>n. refers_notebook a n \<and> sn_notebook_id x = Some (nb_id n)) (notebooks db)"

definition refers_grade :: "database \<Rightarrow> assignment \<Rightarrow> grade \<Rightarrow> bool" where
  "refers_grade db a g \<longleftrightarrow>
     list_ex (\<lambda>x. refers_submitted_notebook db a x \<and> g_notebook_id g = Some (sn_id x))
       (submitted_notebooks db) \<or>
     list_ex (\<lambda>c. refers_grade_cell db a c \<and> g_cell_id g = Some (gc_id c)) (grade_cells db)"

definition refers_comment :: "database \<Rightarrow> assignment \<Rightarrow> comment \<Rightarrow> bool" where
  "refers_comment db a k \<longleftrightarrow>
     list_ex (\<lambda>x. refers_submitted_notebook db a x \<and> cm_notebook_id k = Some (sn_id x))
       (submitted_notebooks db) \<or>
     list_ex (\<lambda>c. refers_solution_cell db a c \<and> cm_cell_id k = Some (sc_id c))
       (solution_cells db)"

text \<open>
  The shape \<^verbatim>\<open>add_submission\<close> gives the submission graph: a submitted notebook that
  copies a notebook belongs to a submission of that notebook's assignment, and a grade
  (a comment) for a cell belongs to a submitted notebook that copies the cell's notebook.
\<close>

definition mirrors_assignments :: "database \<Rightarrow> bool" where
  "mirrors_assignments db \<longleftrightarrow>
     list_all (\<lambda>x. list_all (\<lambda>n. sn_notebook_id x = Some (nb_id n) \<longrightarrow>
          list_ex (\<lambda>s. sn_assignment_id x = Some (sa_id s) \<and>
                       sa_assignment_id s = nb_assignment_id n) (submitted_assignments db))
        (notebooks db)) (submitted_notebooks db) \<and>
     list_all (\<lambda>g. list_all (\<lambda>c. g_cell_id g = Some (gc_id c) \<longrightarrow>
          list_ex (\<lambda>x. g_notebook_id g = Some (sn_id x) \<and>
                       sn_notebook_id x = gc_notebook_id c) (submitted_notebooks db))
        (grade_cells db)) (grades db) \<and>
     list_all (\<lambda>k. list_all (\<lambda>c. cm_cell_id k = Some (sc_id c) \<longrightarrow>
          list_ex (\<lambda>x. cm_notebook_id k = Some (sn_id x) \<and>
                       sn_notebook_id x = sc_notebook_id c) (submitted_notebooks db))
        (solution_cells db)) (comments db)"

text \<open>
  What the removal of submissions keeps true between the database \<open>d0\<close> it started from
  and the database \<open>d\<close> it has reached: only rows of submissions have gone, no remaining
  submitted notebook names a submission that has gone, and no remaining grade or comment
  names a submitted notebook that has gone.
\<close>

definition removal_inv :: "database \<Rightarrow> database \<Rightarrow> bool" where
  "removal_inv d0 d \<longleftrightarrow>
     assignments d = assignments d0 \<and> notebooks d = notebooks d0 \<and>
     grade_cells d = grade_cells d0 \<and> solution_cells d = solution_cells d0 \<and>
     students d = students d0 \<and>
     set (submitted_assignments d) \<subseteq> set (submitted_assignments d0) \<and>
     set (submitted_notebooks d) \<subseteq> set (submitted_notebooks d0) \<and>
     set (grades d) \<subseteq> set (grades d0) \<and>
     set (comments d) \<subseteq> set (comments d0) \<and>
     (\<forall>r \<in> set (submitted_assignments d0). r \<notin> set (submitted_assignments d) \<longrightarrow>
        (\<forall>x \<in> set (submitted_notebooks d). sn_assignment_id x \<noteq> Some (sa_id r))) \<and>
     (\<forall>x \<in> set (submitted_notebooks d0). x \<notin> set (submitted_notebooks d) \<longrightarrow>
        (\<forall>g \<in> set (grades d). g_notebook_id g \<noteq> Some (sn_id x)) \<and>
        (\<forall>k \<in> set (comments d). cm_notebook_id k \<noteq> Some (sn_id x)))"

section \<open>Due dates and lateness\<close>

text \<open>
  \<^verbatim>\<open>SubmittedAssignment.duedate\<close> reads \<^verbatim>\<open>self.assignment.duedate\<close> and, when the
  extension is not \<open>None\<close>, returns \<^verbatim>\<open>orig_duedate + self.extension\<close>.  Python's \<open>+\<close>
  between \<open>None\<close> and a \<^verbatim>\<open>timedelta\<close> raises \<^verbatim>\<open>TypeError\<close>, and an attribute of a
  missing assignment raises \<^verbatim>\<open>AttributeError\<close>.
\<close>

definition SubmittedAssignment_duedate ::
  "database \<Rightarrow> submitted_assignment \<Rightarrow> error + int option" where
  "SubmittedAssignment_duedate db s =
     (case SubmittedAssignment_assignment db s of
        None \<Rightarrow> Inl AttributeError
      | Some a \<Rightarrow>
          (let orig_duedate = a_duedate a
           in case sa_extension s of
                Some extension \<Rightarrow>
                  (case orig_duedate of
                     None \<Rightarrow> Inl TypeError
                   | Some d \<Rightarrow> Inr (Some (d + extension)))
              | None \<Rightarrow> Inr orig_duedate))"

text \<open>\<^verbatim>\<open>timedelta.total_seconds()\<close> of a number of microseconds.\<close>

definition total_seconds :: "int \<Rightarrow> real" where
  "total_seconds us = real_of_int us / 1000000"

text \<open>
  \<^verbatim>\<open>if self.timestamp is None or self.duedate is None: return 0
  else: return max(0, (self.timestamp - self.duedate).total_seconds())\<close>; the \<^verbatim>\<open>or\<close> does
  not read the due date when the timestamp is \<open>None\<close>.
\<close>

definition SubmittedAssignment_total_seconds_late ::
  "database \<Rightarrow> submitted_assignment \<Rightarrow> error + real" where
  "SubmittedAssignment_total_seconds_late db s =
     (case sa_timestamp s of
        None \<Rightarrow> Inr 0
      | Some timestamp \<Rightarrow>
          (case SubmittedAssignment_duedate db s of
             Inl e \<Rightarrow> Inl e
           | Inr None \<Rightarrow> Inr 0
           | Inr (Some duedate) \<Rightarrow> Inr (max 0 (total_seconds (timestamp - duedate)))))"

section \<open>Average scores\<close>

text \<open>
  The joins of the average queries.  \<^verbatim>\<open>self.db.query(...Grade...).join(GradeCell,
  Notebook, Assignment)\<close> joins each table on its foreign key: the grade's cell, the
  cell's notebook, the notebook's assignment.  \<^verbatim>\<open>.join(SubmittedNotebook, Notebook,
  Assignment)\<close> goes through the grade's submitted notebook instead.
\<close>

definition grade_cell_join ::
  "database \<Rightarrow> (grade \<times> grade_cell \<times> notebook \<times> assignment) list" where
  "grade_cell_join db =
     filter (\<lambda>(g, c, n, a). sql_eq (g_cell_id g) (Some (gc_id c)) = Some True \<and>
                              sql_eq (gc_notebook_id c) (Some (nb_id n)) = Some True \<and>
                              sql_eq (nb_assignment_id n) (Some (a_id a)) = Some True)
       (List.product (grades db) (List.product (grade_cells db)
          (List.product (notebooks db) (assignments db))))"

definition submitted_notebook_join ::
  "database \<Rightarrow> (grade \<times> submitted_notebook \<times> notebook \<times> assignment) list" where
  "submitted_notebook_join db =
     filter (\<lambda>(g, s, n, a). sql_eq (g_notebook_id g) (Some (sn_id s)) = Some True \<and>
                              sql_eq (sn_notebook_id s) (Some (nb_id n)) = Some True \<and>
                              sql_eq (nb_assignment_id n) (Some (a_id a)) = Some True)
       (List.product (grades db) (List.product (submitted_notebooks db)
          (List.product (notebooks db) (assignments db))))"

text \<open>Python's \<open>/\<close> under \<^verbatim>\<open>from __future__ import division\<close>.\<close>

definition py_truediv :: "real \<Rightarrow> nat \<Rightarrow> error + real" where
  "py_truediv x n = (if n = 0 then Inl ZeroDivisionError else Inr (x / real n))"

definition average_assignment_score :: "gradebook \<Rightarrow> string \<Rightarrow> error + real" where
  "average_assignment_score gb assignment_id =
     (case find_assignment gb assignment_id of
        Inl e \<Rightarrow> Inl e
      | Inr assignment \<Rightarrow>
          (let db = gb_session gb
           in if Assignment_num_submissions db assignment = 0 then Inr 0
              else
                (let score_sum = sql_coalesce (sql_sum (map (\<lambda>(g, c, n, a). Grade_score g)
                       (filter (\<lambda>(g, c, n, a). a_name a = assignment_id)
                          (grade_cell_join db)))) 0
                 in py_truediv score_sum (Assignment_num_submissions db assignment))))"

definition average_assignment_typed_score ::
  "cell_type \<Rightarrow> gradebook \<Rightarrow> string \<Rightarrow> error + real" where
  "average_assignment_typed_score t gb assignment_id =
     (case find_assignment gb assignment_id of
        Inl e \<Rightarrow> Inl e
      | Inr assignment \<Rightarrow>
          (let db = gb_session gb
           in if Assignment_num_submissions db assignment = 0 then Inr 0
              else
                (let score_sum = sql_coalesce (sql_sum (map (\<lambda>(g, c, n, a). Grade_score g)
                       (sql_where
                          (\<lambda>(g, c, n, a).
                             sql_and (Some (a_name a = assignment_id))
                            (sql_and (sql_eq (nb_assignment_id n) (Some (a_id a)))
                            (sql_and (sql_eq (gc_notebook_id c) (Some (nb_id n)))
                            (sql_and (sql_eq (g_cell_id g) (Some (gc_id c)))
                                     (sql_eq (Some (gc_cell_type c)) (Some t))))))
                          (grade_cell_join db)))) 0
                 in py_truediv score_sum (Assignment_num_submissions db assignment))))"

definition average_assignment_code_score :: "gradebook \<Rightarrow> string \<Rightarrow> error + real" where
  "average_assignment_code_score = average_assignment_typed_score Code"

definition average_assignment_written_score :: "gradebook \<Rightarrow> string \<Rightarrow> error + real" where
  "average_assignment_written_score = average_assignment_typed_score Markdown"

definition average_notebook_score :: "gradebook \<Rightarrow> string \<Rightarrow> string \<Rightarrow> error + real" where
  "average_notebook_score gb notebook_id assignment_id =
     (case find_notebook gb notebook_id assignment_id of
        Inl e \<Rightarrow> Inl e
      | Inr notebook \<Rightarrow>
          (let db = gb_session gb
           in if Notebook_num_submissions db notebook = 0 then Inr 0
              else
                (let score_sum = sql_coalesce (sql_sum (map (\<lambda>(g, s, n, a). Grade_score g)
                       (sql_where
                          (\<lambda>(g, s, n, a). sql_and (Some (nb_name n = notebook_id))
                                                   (Some (a_name a = assignment_id)))
                          (submitted_notebook_join db)))) 0
                 in py_truediv score_sum (Notebook_num_submissions db notebook))))"

definition average_notebook_typed_score ::
  "cell_type \<Rightarrow> gradebook \<Rightarrow> string \<Rightarrow> string \<Rightarrow> error + real" where
  "average_notebook_typed_score t gb notebook_id assignment_id =
     (case find_notebook gb notebook_id assignment_id of
        Inl e \<Rightarrow> Inl e
      | Inr notebook \<Rightarrow>
          (let db = gb_session gb
           in if Notebook_num_submissions db notebook = 0 then Inr 0
              else
                (let score_sum = sql_coalesce (sql_sum (map (\<lambda>(g, c, n, a). Grade_score g)
                       (sql_where
                          (\<lambda>(g, c, n, a).
                             sql_and (Some (nb_name n = notebook_id))
                            (sql_and (Some (a_name a = assignment_id))
                            (sql_and (sql_eq (nb_assignment_id n) (Some (a_id a)))
                            (sql_and (sql_eq (gc_notebook_id c) (Some (nb_id n)))
                            (sql_and (sql_eq (g_cell_id g) (Some (gc_id c)))
                                     (sql_eq (Some (gc_cell_type c)) (Some t)))))))
                          (grade_cell_join db)))) 0
                 in py_truediv score_sum (Notebook_num_submissions db notebook))))"

definition average_notebook_code_score :: "gradebook \<Rightarrow> string \<Rightarrow> string \<Rightarrow> error + real" where
  "average_notebook_code_score = average_notebook_typed_score Code"

definition average_notebook_written_score ::
  "gradebook \<Rightarrow> string \<Rightarrow> string \<Rightarrow> error + real" where
  "average_notebook_written_score = average_notebook_typed_score Markdown"

section \<open>Dictionaries of students\<close>

text \<open>
  \<^verbatim>\<open>Student.to_dict\<close> returns the columns of the student with its \<^verbatim>\<open>score\<close> and
  \<^verbatim>\<open>max_score\<close>; a value of the dictionary that SQL may leave NULL is an \<open>option\<close>.
\<close>

record student_dict =
  sd_id :: ident
  sd_first_name :: "string option"
  sd_last_name :: "string option"
  sd_email :: "string option"
  sd_score :: "real option"
  sd_max_score :: "real option"

definition Student_to_dict :: "database \<Rightarrow> student \<Rightarrow> student_dict" where
  "Student_to_dict db s =
     \<lparr>sd_id = st_id s, sd_first_name = st_first_name s, sd_last_name = st_last_name s,
      sd_email = st_email s, sd_score = Some (Student_score db s),
      sd_max_score = Some (Student_max_score db s)\<rparr>"

text \<open>
  What the docstring of \<^verbatim>\<open>student_dicts\<close> and the specification compare it with:
  \<^verbatim>\<open>Student.to_dict()\<close> called for each student.
\<close>

definition student_dicts_by_entity :: "database \<Rightarrow> student_dict list" where
  "student_dicts_by_entity db = map (Student_to_dict db) (students db)"

text \<open>
  \<^verbatim>\<open>GROUP BY\<close>: one group per value of the key, each with the rows that have the
  value.  SQL leaves the order of the groups open (SQLite returns them sorted by the
  key); here it is the order of first appearance.  \<^verbatim>\<open>LEFT OUTER JOIN\<close>: every left row with each
  right row its condition accepts, or once with NULLs when it accepts none.
\<close>

definition sql_group_by :: "('r \<Rightarrow> 'k) \<Rightarrow> 'r list \<Rightarrow> ('k \<times> 'r list) list" where
  "sql_group_by key rows =
     map (\<lambda>k. (k, filter (\<lambda>r. key r = k) rows)) (remdups (map key rows))"

definition sql_left_outer_join ::
  "('l \<Rightarrow> 'r \<Rightarrow> bool option) \<Rightarrow> 'l list \<Rightarrow> 'r list \<Rightarrow> ('l \<times> 'r option) list" where
  "sql_left_outer_join cond ls rs =
     concat (map (\<lambda>l. case sql_where (cond l) rs of
                         [] \<Rightarrow> [(l, None)]
                       | m # ms \<Rightarrow> map (\<lambda>r. (l, Some r)) (m # ms)) ls)"

text \<open>
  The subquery of \<^verbatim>\<open>student_dicts\<close>:
  \<^verbatim>\<open>self.db.query(Student.id, func.sum(Grade.score).label("score"))
  .join(SubmittedAssignment, SubmittedNotebook, Grade).group_by(Student.id).subquery()\<close>
\<close>

definition student_scores :: "database \<Rightarrow> (ident \<times> real option) list" where
  "student_scores db =
     map (\<lambda>(k, rows). (k, sql_sum (map (\<lambda>(s, x, n, g). Grade_score g) rows)))
       (sql_group_by (\<lambda>(s, x, n, g). st_id s)
          (filter (\<lambda>(s, x, n, g). sql_eq (sa_student_id x) (Some (st_id s)) = Some True \<and>
                                   sql_eq (sn_assignment_id n) (Some (sa_id x)) = Some True \<and>
                                   sql_eq (g_notebook_id g) (Some (sn_id n)) = Some True)
             (List.product (students db) (List.product (submitted_assignments db)
                (List.product (submitted_notebooks db) (grades db))))))"

text \<open>
  The full query:
  \<^verbatim>\<open>self.db.query(Student.id, Student.first_name, Student.last_name, Student.email,
  func.coalesce(scores.c.score, 0.0), func.sum(GradeCell.max_score))
  .outerjoin(scores, Student.id == scores.c.id).group_by(Student.id).all()\<close>.
  \<^verbatim>\<open>GradeCell\<close> is selected from but never joined, so the query ranges over the product
  of \<^verbatim>\<open>grade_cell\<close> with the students joined to their scores.  The columns outside the
  aggregate are read from a row of the group.
\<close>

definition student_dicts :: "database \<Rightarrow> student_dict list" where
  "student_dicts db =
     List.map_filter
       (\<lambda>(k, rows). case rows of
            [] \<Rightarrow> None
          | (c, s, score) # _ \<Rightarrow>
              Some \<lparr>sd_id = st_id s, sd_first_name = st_first_name s,
                    sd_last_name = st_last_name s, sd_email = st_email s,
                    sd_score = Some (sql_coalesce
                       (case score of None \<Rightarrow> None | Some (i, v) \<Rightarrow> v) 0),
                    sd_max_score =
                      sql_sum (map (\<lambda>(c, s, score). Some (gc_max_score c)) rows)\<rparr>)
       (sql_group_by (\<lambda>(c, s, score). st_id s)
          (List.product (grade_cells db)
             (sql_left_outer_join (\<lambda>s score. sql_eq (Some (st_id s)) (Some (fst score)))
                (students db) (student_scores db))))"

section \<open>An example gradebook\<close>

text \<open>
  The scenario of the specification: assignment \<open>hw1\<close> with one notebook \<open>nb1\<close> holding a
  code grade cell worth 2, a written (markdown) grade cell worth 3 and one solution cell;
  student \<open>s1\<close> has one submission, whose grades and comment are still untouched.
\<close>

definition ex_code_cell :: grade_cell where
  "ex_code_cell = \<lparr>gc_id = ''C1'', gc_name = ''test1'', gc_max_score = 2, gc_cell_type = Code,
     gc_source = None, gc_checksum = None, gc_notebook_id = Some ''N1''\<rparr>"

definition ex_written_cell :: grade_cell where
  "ex_written_cell = \<lparr>gc_id = ''C2'', gc_name = ''essay'', gc_max_score = 3,
     gc_cell_type = Markdown, gc_source = None, gc_checksum = None,
     gc_notebook_id = Some ''N1''\<rparr>"

definition ex_assignment :: assignment where
  "ex_assignment = \<lparr>a_id = ''A1'', a_name = ''hw1'', a_duedate = None\<rparr>"

definition ex_notebook :: notebook where
  "ex_notebook = \<lparr>nb_id = ''N1'', nb_name = ''nb1'', nb_assignment_id = Some ''A1''\<rparr>"

definition ex_student :: student where
  "ex_student = \<lparr>st_id = ''s1'', st_first_name = None, st_last_name = None, st_email = None\<rparr>"

definition ex_submission :: submitted_assignment where
  "ex_submission = \<lparr>sa_id = ''SA1'', sa_assignment_id = Some ''A1'',
     sa_student_id = Some ''s1'', sa_timestamp = None, sa_extension = None\<rparr>"

definition ex_submitted_notebook :: submitted_notebook where
  "ex_submitted_notebook =
     \<lparr>sn_id = ''SN1'', sn_notebook_id = Some ''N1'', sn_assignment_id = Some ''SA1''\<rparr>"

definition ex_code_grade :: grade where
  "ex_code_grade = \<lparr>g_id = ''G1'', g_cell_id = Some ''C1'', g_notebook_id = Some ''SN1'',
     g_auto_score = None, g_manual_score = None\<rparr>"

definition ex_written_grade :: grade where
  "ex_written_grade = \<lparr>g_id = ''G2'', g_cell_id = Some ''C2'', g_notebook_id = Some ''SN1'',
     g_auto_score = None, g_manual_score = None\<rparr>"

definition ex_db :: database where
  "ex_db = \<lparr>assignments = [ex_assignment], notebooks = [ex_notebook],
     grade_cells = [ex_code_cell, ex_written_cell],
     solution_cells = [\<lparr>sc_id = ''S1'', sc_name = ''answer'', sc_notebook_id = Some ''N1'',
        sc_cell_type = Markdown, sc_source = None, sc_checksum = None\<rparr>],
     students = [ex_student],
     submitted_assignments = [ex_submission],
     submitted_notebooks = [ex_submitted_notebook],
     grades = [ex_code_grade, ex_written_grade],
     comments = [\<lparr>cm_id = ''K1'', cm_cell_id = Some ''S1'', cm_notebook_id = Some ''SN1'',
        cm_comment = None\<rparr>]\<rparr>"

text \<open>
  The witness is the specification's second scenario: the code grade gets auto_score 0
  out of 2, so the grade and its submitted notebook have failed tests.
\<close>

definition ex_db_failed :: database where
  "ex_db_failed =
     ex_db\<lparr>grades := [ex_code_grade\<lparr>g_auto_score := Some 0\<rparr>, ex_written_grade]\<rparr>"


text \<open>The same gradebook before student \<open>s1\<close> has submitted anything.\<close>

definition ex_db_no_submission :: database where
  "ex_db_no_submission =
     ex_db\<lparr>submitted_assignments := [], submitted_notebooks := [], grades := [],
           comments := []\<rparr>"

text \<open>
  The gradebook of the example before the submission, with a clean session, and the
  identifiers \<^verbatim>\<open>new_uuid()\<close> hands out in the example: \<open>u\<close>, \<open>uu\<close>, \<open>uuu\<close>, ...
\<close>

definition ex_gradebook :: gradebook where
  "ex_gradebook =
     \<lparr>gb_store = ex_db_no_submission, gb_session = ex_db_no_submission, gb_inactive = False\<rparr>"

definition ex_uuid :: "nat \<Rightarrow> ident" where
  "ex_uuid k = replicate (Suc k) CHR ''u''"

definition ex_parse_utc :: "int \<Rightarrow> error + int option" where
  "ex_parse_utc ts = Inr (Some ts)"

definition ex_kwargs :: "int submission_kwargs" where
  "ex_kwargs = \<lparr>kw_timestamp = Some 1000, kw_extension = None\<rparr>"

definition ex_new_submission :: submitted_assignment where
  "ex_new_submission = \<lparr>sa_id = ''u'', sa_assignment_id = Some ''A1'',
     sa_student_id = Some ''s1'', sa_timestamp = Some 1000, sa_extension = None\<rparr>"

definition ex_db_submitted :: database where
  "ex_db_submitted = ex_db_no_submission\<lparr>
     submitted_assignments := [ex_new_submission],
     submitted_notebooks :=
       [\<lparr>sn_id = ''uu'', sn_notebook_id = Some ''N1'', sn_assignment_id = Some ''u''\<rparr>],
     grades :=
       [\<lparr>g_id = ''uuu'', g_cell_id = Some ''C1'', g_notebook_id = Some ''uu'',
          g_auto_score = None, g_manual_score = None\<rparr>,
        \<lparr>g_id = ''uuuu'', g_cell_id = Some ''C2'', g_notebook_id = Some ''uu'',
          g_auto_score = None, g_manual_score = None\<rparr>],
     comments :=
       [\<lparr>cm_id = ''uuuuu'', cm_cell_id = Some ''S1'', cm_notebook_id = Some ''uu'',
          cm_comment = None\<rparr>]\<rparr>"

text \<open>
  A gradebook where assignment \<open>hw1\<close> has two notebooks, each with a solution cell and a
  grade cell named \<open>answer\<close>.
\<close>

definition ex_db_two_notebooks :: database where
  "ex_db_two_notebooks = \<lparr>assignments = [ex_assignment],
     notebooks = [ex_notebook,
        \<lparr>nb_id = ''N2'', nb_name = ''nb2'', nb_assignment_id = Some ''A1''\<rparr>],
     grade_cells =
       [\<lparr>gc_id = ''C1'', gc_name = ''answer'', gc_max_score = 1, gc_cell_type = Code,
          gc_source = None, gc_checksum = None, gc_notebook_id = Some ''N1''\<rparr>,
        \<lparr>gc_id = ''C2'', gc_name = ''answer'', gc_max_score = 1, gc_cell_type = Code,
          gc_source = None, gc_checksum = None, gc_notebook_id = Some ''N2''\<rparr>],
     solution_cells =
       [\<lparr>sc_id = ''S1'', sc_name = ''answer'', sc_notebook_id = Some ''N1'',
          sc_cell_type = Code, sc_source = None, sc_checksum = None\<rparr>,
        \<lparr>sc_id = ''S2'', sc_name = ''answer'', sc_notebook_id = Some ''N2'',
          sc_cell_type = Code, sc_source = None, sc_checksum = None\<rparr>],
     students = [], submitted_assignments = [], submitted_notebooks = [], grades = [],
     comments = []\<rparr>"

definition ex_gradebook_two_notebooks :: gradebook where
  "ex_gradebook_two_notebooks =
     \<lparr>gb_store = ex_db_two_notebooks, gb_session = ex_db_two_notebooks,
      gb_inactive = False\<rparr>"

text \<open>The gradebook of the example after the submission, and after the assignment is removed.\<close>

definition ex_gradebook_submitted :: gradebook where
  "ex_gradebook_submitted =
     \<lparr>gb_store = ex_db_submitted, gb_session = ex_db_submitted, gb_inactive = False\<rparr>"

definition ex_db_removed :: database where
  "ex_db_removed = \<lparr>assignments = [], notebooks = [], grade_cells = [], solution_cells = [],
     students = [ex_student], submitted_assignments = [], submitted_notebooks = [],
     grades = [], comments = []\<rparr>"

text \<open>
  A submission with an extension of one day (in microseconds) to assignment \<open>hw1\<close>, which
  has no due date.
\<close>

definition ex_extended_submission :: submitted_assignment where
  "ex_extended_submission = \<lparr>sa_id = ''SA1'', sa_assignment_id = Some ''A1'',
     sa_student_id = Some ''s1'', sa_timestamp = Some 1000,
     sa_extension = Some 86400000000\<rparr>"

definition ex_db_extended :: database where
  "ex_db_extended = ex_db\<lparr>submitted_assignments := [ex_extended_submission]\<rparr>"

text \<open>
  The first scenario of the specification: the code grade has auto_score 2 and the
  written grade manual_score 1.
\<close>

definition ex_db_graded :: database where
  "ex_db_graded =
     ex_db\<lparr>grades := [ex_code_grade\<lparr>g_auto_score := Some 2\<rparr>,
                       ex_written_grade\<lparr>g_manual_score := Some 1\<rparr>]\<rparr>"

text \<open>
  A gradebook with two assignments: \<open>hw1\<close> with notebook \<open>nb1\<close> and its code grade cell,
  \<open>hw2\<close> with the empty notebook \<open>nb2\<close>.  Student \<open>s1\<close> submits \<open>hw1\<close>; then the grade cell is
  moved to \<open>nb2\<close> by \<^verbatim>\<open>update_or_create_grade_cell("test1", "nb1", "hw1",
  notebook_id="N2")\<close>.
\<close>

definition ex_assignment2 :: assignment where
  "ex_assignment2 = \<lparr>a_id = ''A2'', a_name = ''hw2'', a_duedate = None\<rparr>"

definition ex_db_two_assignments :: database where
  "ex_db_two_assignments = \<lparr>assignments = [ex_assignment, ex_assignment2],
     notebooks = [ex_notebook,
        \<lparr>nb_id = ''N2'', nb_name = ''nb2'', nb_assignment_id = Some ''A2''\<rparr>],
     grade_cells = [ex_code_cell], solution_cells = [], students = [ex_student],
     submitted_assignments = [], submitted_notebooks = [], grades = [], comments = []\<rparr>"

definition ex_gradebook_two_assignments :: gradebook where
  "ex_gradebook_two_assignments =
     \<lparr>gb_store = ex_db_two_assignments, gb_session = ex_db_two_assignments,
      gb_inactive = False\<rparr>"

definition ex_db_hw1_submitted :: database where
  "ex_db_hw1_submitted = ex_db_two_assignments\<lparr>
     submitted_assignments := [ex_new_submission],
     submitted_notebooks :=
       [\<lparr>sn_id = ''uu'', sn_notebook_id = Some ''N1'', sn_assignment_id = Some ''u''\<rparr>],
     grades :=
       [\<lparr>g_id = ''uuu'', g_cell_id = Some ''C1'', g_notebook_id = Some ''uu'',
          g_auto_score = None, g_manual_score = None\<rparr>]\<rparr>"

definition ex_gradebook_hw1_submitted :: gradebook where
  "ex_gradebook_hw1_submitted =
     \<lparr>gb_store = ex_db_hw1_submitted, gb_session = ex_db_hw1_submitted,
      gb_inactive = False\<rparr>"

definition ex_db_cell_moved :: database where
  "ex_db_cell_moved =
     ex_db_hw1_submitted\<lparr>grade_cells := [ex_code_cell\<lparr>gc_notebook_id := Some ''N2''\<rparr>]\<rparr>"

definition ex_gradebook_cell_moved :: gradebook where
  "ex_gradebook_cell_moved =
     \<lparr>gb_store = ex_db_cell_moved, gb_session = ex_db_cell_moved, gb_inactive = False\<rparr>"

section \<open>Facts about the SQL expressions\<close>

lemma sql_and_True: "sql_and p q = Some True \<longleftrightarrow> p = Some True \<and> q = Some True"
  by (cases p; cases q) (auto simp: sql_and_def)

lemma sql_eq_True: "sql_eq x y = Some True \<longleftrightarrow> (\<exists>v. x = Some v \<and> y = Some v)"
  by (cases x; cases y) (auto simp: sql_eq_def)

lemma sql_lt_True: "sql_lt x y = Some True \<longleftrightarrow> (\<exists>a b. x = Some a \<and> y = Some b \<and> a < b)"
  by (cases x; cases y) (auto simp: sql_lt_def)

lemma sql_exists_where:
  "sql_exists (sql_where cond rows) \<longleftrightarrow> (\<exists>r \<in> set rows. cond r = Some True)"
  by (auto simp: sql_exists_def sql_where_def filter_empty_conv)

lemma Grade_needs_manual_grade_True:
  "Grade_needs_manual_grade g = Some True \<longleftrightarrow> g_auto_score g = None \<and> g_manual_score g = None"
  by (simp add: Grade_needs_manual_grade_def sql_and_True sql_is_null_def)

lemmas ex_defs = ex_db_def ex_assignment_def ex_notebook_def ex_code_cell_def
  ex_written_cell_def ex_student_def ex_submission_def ex_submitted_notebook_def
  ex_code_grade_def ex_written_grade_def

section \<open>Claims about single grades\<close>

text \<open>
  C1. For every Grade row, the derived score is manual_score when manual_score is set,
  otherwise auto_score when auto_score is set, otherwise 0.0: the manual score overrides
  the automatic one.
\<close>

theorem Grade_score_manual_overrides_auto:
  "Grade_score g =
     Some (case g_manual_score g of
             Some m \<Rightarrow> m
           | None \<Rightarrow> (case g_auto_score g of Some a \<Rightarrow> a | None \<Rightarrow> 0))"
  by (cases "g_manual_score g"; cases "g_auto_score g")
     (simp_all add: Grade_score_def sql_is_not_null_def)

theorem Grade_score_manual_overrides_auto_witness:
  "Grade_score (ex_code_grade\<lparr>g_auto_score := Some 2, g_manual_score := Some 1\<rparr>) = Some 1
   \<and> Grade_score (ex_code_grade\<lparr>g_auto_score := Some 2\<rparr>) = Some 2
   \<and> Grade_score ex_code_grade = Some 0"
  using Grade_score_manual_overrides_auto
          [of "ex_code_grade\<lparr>g_auto_score := Some 2, g_manual_score := Some 1\<rparr>"]
        Grade_score_manual_overrides_auto [of "ex_code_grade\<lparr>g_auto_score := Some 2\<rparr>"]
        Grade_score_manual_overrides_auto [of ex_code_grade]
  by (simp add: ex_code_grade_def)

section \<open>Needs manual grade\<close>

text \<open>
  C3. For every Grade row, needs_manual_grade is true iff both auto_score and
  manual_score are unset (and it is never NULL); a SubmittedNotebook, a
  SubmittedAssignment and a Notebook need manual grading iff at least one descendant
  Grade does.  The descendants are reached through the relationships: the grades of a
  submitted notebook, the grades of the notebooks of a submission, the grades of the
  submitted copies of a notebook.
\<close>

theorem needs_manual_grade_propagates:
  "Grade_needs_manual_grade g = Some (g_auto_score g = None \<and> g_manual_score g = None)
   \<and> (SubmittedNotebook_needs_manual_grade db sn \<longleftrightarrow>
        (\<exists>x \<in> set (SubmittedNotebook_grades db sn). Grade_needs_manual_grade x = Some True))
   \<and> (SubmittedAssignment_needs_manual_grade db sa \<longleftrightarrow>
        (\<exists>n \<in> set (SubmittedAssignment_notebooks db sa).
           \<exists>x \<in> set (SubmittedNotebook_grades db n). Grade_needs_manual_grade x = Some True))
   \<and> (Notebook_needs_manual_grade db nb \<longleftrightarrow>
        (\<exists>n \<in> set (Notebook_submissions db nb).
           \<exists>x \<in> set (SubmittedNotebook_grades db n). Grade_needs_manual_grade x = Some True))"
proof (intro conjI)
  show "Grade_needs_manual_grade g = Some (g_auto_score g = None \<and> g_manual_score g = None)"
    by (auto simp: Grade_needs_manual_grade_def sql_and_def sql_is_null_def)
  show "SubmittedNotebook_needs_manual_grade db sn \<longleftrightarrow>
        (\<exists>x \<in> set (SubmittedNotebook_grades db sn). Grade_needs_manual_grade x = Some True)"
    unfolding SubmittedNotebook_needs_manual_grade_def sql_exists_where
    by (auto simp: sql_and_True sql_eq_True SubmittedNotebook_grades_def)
  show "SubmittedAssignment_needs_manual_grade db sa \<longleftrightarrow>
        (\<exists>n \<in> set (SubmittedAssignment_notebooks db sa).
           \<exists>x \<in> set (SubmittedNotebook_grades db n). Grade_needs_manual_grade x = Some True)"
    unfolding SubmittedAssignment_needs_manual_grade_def sql_exists_where
    by (auto simp: sql_and_True sql_eq_True SubmittedNotebook_grades_def
          SubmittedAssignment_notebooks_def)
  show "Notebook_needs_manual_grade db nb \<longleftrightarrow>
        (\<exists>n \<in> set (Notebook_submissions db nb).
           \<exists>x \<in> set (SubmittedNotebook_grades db n). Grade_needs_manual_grade x = Some True)"
    unfolding Notebook_needs_manual_grade_def sql_exists_where
    by (auto simp: sql_and_True sql_eq_True SubmittedNotebook_grades_def
          Notebook_submissions_def)
qed

theorem needs_manual_grade_propagates_witness:
  "Grade_needs_manual_grade ex_code_grade = Some True
   \<and> SubmittedNotebook_needs_manual_grade ex_db ex_submitted_notebook
   \<and> SubmittedAssignment_needs_manual_grade ex_db ex_submission
   \<and> Notebook_needs_manual_grade ex_db ex_notebook"
  using needs_manual_grade_propagates [of ex_code_grade ex_db ex_submitted_notebook
          ex_submission ex_notebook]
  by (simp add: ex_defs SubmittedNotebook_grades_def SubmittedAssignment_notebooks_def
        Notebook_submissions_def Grade_needs_manual_grade_True)

section \<open>Failed tests\<close>

lemma sql_scalar_where:
  "sql_scalar (map (\<lambda>r. Some (f r)) (sql_where (\<lambda>r. sql_eq k (Some (key r))) rows))
     = map_option f (find (\<lambda>r. k = Some (key r)) rows)"
  by (induction rows) (auto simp: sql_scalar_def sql_where_def sql_eq_True)

lemma Grade_max_score_cell:
  "Grade_max_score db g = map_option gc_max_score (Grade_cell db g)"
  unfolding Grade_max_score_def Grade_cell_def by (rule sql_scalar_where)

lemma Grade_cell_type_cell:
  "Grade_cell_type db g = map_option gc_cell_type (Grade_cell db g)"
  unfolding Grade_cell_type_def Grade_cell_def by (rule sql_scalar_where)

lemma Grade_failed_tests_True:
  "Grade_failed_tests db g = Some True \<longleftrightarrow>
     (\<exists>c a. Grade_cell db g = Some c \<and> gc_cell_type c = Code \<and>
            g_auto_score g = Some a \<and> a < gc_max_score c)"
  by (auto simp: Grade_failed_tests_def sql_and_True sql_lt_True sql_eq_True
        Grade_max_score_cell Grade_cell_type_cell)

text \<open>
  C4, as the code has it.  For every Grade row, failed_tests is true iff its cell is
  code-typed, auto_score is set, and auto_score < max_score of the cell; a grade whose
  auto_score is unset does not count as a failed test (the comparison with NULL is not
  true).  A SubmittedNotebook has failed_tests iff at least one of its grades has.
\<close>

theorem failed_tests_needs_auto_score:
  "(Grade_failed_tests db g = Some True \<longleftrightarrow>
      (\<exists>c a. Grade_cell db g = Some c \<and> gc_cell_type c = Code \<and>
             g_auto_score g = Some a \<and> a < gc_max_score c))
   \<and> (SubmittedNotebook_failed_tests db sn \<longleftrightarrow>
        (\<exists>x \<in> set (SubmittedNotebook_grades db sn). Grade_failed_tests db x = Some True))"
proof (intro conjI)
  show "Grade_failed_tests db g = Some True \<longleftrightarrow>
      (\<exists>c a. Grade_cell db g = Some c \<and> gc_cell_type c = Code \<and>
             g_auto_score g = Some a \<and> a < gc_max_score c)"
    by (rule Grade_failed_tests_True)
  show "SubmittedNotebook_failed_tests db sn \<longleftrightarrow>
        (\<exists>x \<in> set (SubmittedNotebook_grades db sn). Grade_failed_tests db x = Some True)"
    unfolding SubmittedNotebook_failed_tests_def sql_exists_where
    by (auto simp: sql_and_True sql_eq_True SubmittedNotebook_grades_def)
qed

theorem failed_tests_needs_auto_score_witness:
  "Grade_failed_tests ex_db_failed (ex_code_grade\<lparr>g_auto_score := Some 0\<rparr>) = Some True
   \<and> SubmittedNotebook_failed_tests ex_db_failed ex_submitted_notebook"
  using failed_tests_needs_auto_score
          [of ex_db_failed "ex_code_grade\<lparr>g_auto_score := Some 0\<rparr>" ex_submitted_notebook]
  by (simp add: ex_db_failed_def ex_defs SubmittedNotebook_grades_def Grade_cell_def)

text \<open>
  The claim as written counts an unset auto_score as below max_score.  The untouched
  code grade of the example has a code-typed cell worth 2 and no auto_score; its
  failed_tests is NULL, not true, and its submitted notebook has no failed tests.
\<close>

theorem failed_tests_unset_auto_score_counterexample:
  "Grade_cell ex_db ex_code_grade = Some ex_code_cell
   \<and> gc_cell_type ex_code_cell = Code
   \<and> g_auto_score ex_code_grade = None
   \<and> Grade_failed_tests ex_db ex_code_grade = None
   \<and> \<not> SubmittedNotebook_failed_tests ex_db ex_submitted_notebook"
  by (simp add: ex_defs Grade_cell_def Grade_failed_tests_def Grade_max_score_def
        Grade_cell_type_def SubmittedNotebook_failed_tests_def sql_exists_def sql_where_def
        sql_scalar_def sql_and_def sql_lt_def sql_eq_def)
section \<open>Maximal scores are sums over grade cells\<close>

lemma sql_sum_total:
  "sql_coalesce (sql_sum (map (\<lambda>r. Some (f r)) rows)) 0 = sum_list (map f rows)"
  by (cases rows) (simp_all add: sql_sum_def sql_coalesce_def List.map_filter_def comp_def)

lemma sum_list_insort_key:
  "sum_list (map f (insort_key k x xs)) = f x + sum_list (map (f :: 'a \<Rightarrow> real) xs)"
  by (induction xs) auto

lemma sum_list_sort_key:
  "sum_list (map f (sort_key k xs)) = sum_list (map (f :: 'a \<Rightarrow> real) xs)"
  by (induction xs) (auto simp: sum_list_insort_key)

lemma sum_list_product:
  "sum_list (map g (List.product xs ys))
     = sum_list (map (\<lambda>x. sum_list (map (\<lambda>y. (g (x, y) :: real)) ys)) xs)"
  by (induction xs) (auto simp: comp_def)

lemma sum_list_swap:
  "sum_list (map (\<lambda>x. sum_list (map (\<lambda>y. (g x y :: real)) ys)) xs)
     = sum_list (map (\<lambda>y. sum_list (map (\<lambda>x. g x y) xs)) ys)"
  by (induction xs) (auto simp: sum_list_addf)

lemma sum_list_concat_map:
  "sum_list (map f (concat (map h xs)))
     = sum_list (map (\<lambda>x. sum_list (map (f :: 'b \<Rightarrow> real) (h x))) xs)"
  by (induction xs) auto

lemma Notebook_max_typed_score_cells:
  "Notebook_max_typed_score t db n = total_max_score (of_cell_type t (Notebook_grade_cells db n))"
  unfolding Notebook_max_typed_score_def sql_sum_total total_max_score_def of_cell_type_def
    Notebook_grade_cells_def sql_where_def
  by (simp add: sql_and_True sql_eq_True conj_commute)

lemma Notebook_max_score_cells:
  "Notebook_max_score db n = total_max_score (Notebook_grade_cells db n)"
  unfolding Notebook_max_score_def sql_sum_total total_max_score_def
    Notebook_grade_cells_def sql_where_def
  by (simp add: sql_eq_True)

lemma sum_where_product:
  "sum_list (map (\<lambda>(c, n). (f c :: real)) (sql_where cond (List.product cs ns)))
     = sum_list (map (\<lambda>n. sum_list (map f (filter (\<lambda>c. cond (c, n) = Some True) cs))) ns)"
  (is "?l = ?r")
proof -
  have "?l = sum_list (map (\<lambda>p. if cond p = Some True then f (fst p) else (0::real))
                (List.product cs ns))"
    unfolding sql_where_def sum_list_map_filter'
    by (rule arg_cong [where f = sum_list], rule map_cong) (auto simp: split_beta)
  also have "\<dots> = sum_list (map (\<lambda>c. sum_list (map (\<lambda>n.
                  if cond (c, n) = Some True then f c else 0) ns)) cs)"
    by (simp add: sum_list_product cong: if_cong)
  also have "\<dots> = sum_list (map (\<lambda>n. sum_list (map (\<lambda>c.
                  if cond (c, n) = Some True then f c else 0) cs)) ns)"
    by (rule sum_list_swap)
  also have "\<dots> = ?r"
    by (simp add: sum_list_map_filter')
  finally show ?thesis .
qed

lemma Assignment_max_score_cells:
  "Assignment_max_score db a = total_max_score (Assignment_grade_cells db a)"
proof -
  have "Assignment_max_score db a
      = sum_list (map (\<lambda>(c, n). gc_max_score c)
          (sql_where
             (\<lambda>(c, n). sql_and (sql_eq (nb_assignment_id n) (Some (a_id a)))
                             (sql_eq (gc_notebook_id c) (Some (nb_id n))))
             (List.product (grade_cells db) (notebooks db))))"
    unfolding Assignment_max_score_def
    using sql_sum_total [of "\<lambda>(c, n). gc_max_score c"]
    by (simp add: case_prod_unfold)
  also have "\<dots> = sum_list (map (\<lambda>n. sum_list (map gc_max_score
      (filter (\<lambda>c. nb_assignment_id n = Some (a_id a) \<and> gc_notebook_id c = Some (nb_id n))
         (grade_cells db)))) (notebooks db))"
    unfolding sum_where_product by (simp add: sql_and_True sql_eq_True)
  also have "\<dots> = sum_list (map (\<lambda>n. if nb_assignment_id n = Some (a_id a)
       then total_max_score (Notebook_grade_cells db n) else 0) (notebooks db))"
    by (intro arg_cong [where f = sum_list] map_cong refl)
       (simp add: total_max_score_def Notebook_grade_cells_def)
  also have "\<dots> = total_max_score (Assignment_grade_cells db a)"
    unfolding total_max_score_def Assignment_grade_cells_def Assignment_notebooks_def
      sum_list_concat_map sum_list_sort_key sum_list_map_filter' ..
  finally show ?thesis .
qed

lemma Assignment_max_typed_score_cells:
  "Assignment_max_typed_score t db a
     = total_max_score (of_cell_type t (Assignment_grade_cells db a))"
proof -
  have "Assignment_max_typed_score t db a
      = sum_list (map (\<lambda>(c, n). gc_max_score c)
          (sql_where
             (\<lambda>(c, n). sql_and (sql_eq (nb_assignment_id n) (Some (a_id a)))
                         (sql_and (sql_eq (gc_notebook_id c) (Some (nb_id n)))
                                  (sql_eq (Some (gc_cell_type c)) (Some t))))
             (List.product (grade_cells db) (notebooks db))))"
    unfolding Assignment_max_typed_score_def
    using sql_sum_total [of "\<lambda>(c, n). gc_max_score c"]
    by (simp add: case_prod_unfold)
  also have "\<dots> = sum_list (map (\<lambda>n. sum_list (map gc_max_score
      (filter (\<lambda>c. nb_assignment_id n = Some (a_id a) \<and> gc_notebook_id c = Some (nb_id n)
                   \<and> gc_cell_type c = t)
         (grade_cells db)))) (notebooks db))"
    unfolding sum_where_product
    by (intro arg_cong [where f = sum_list] map_cong refl filter_cong)
       (auto simp: sql_and_True sql_eq_True)
  also have "\<dots> = sum_list (map (\<lambda>n. if nb_assignment_id n = Some (a_id a)
       then total_max_score (of_cell_type t (Notebook_grade_cells db n)) else 0) (notebooks db))"
    by (intro arg_cong [where f = sum_list] map_cong refl)
       (simp add: total_max_score_def Notebook_grade_cells_def of_cell_type_def)
  also have "\<dots> = total_max_score (of_cell_type t (Assignment_grade_cells db a))"
    unfolding total_max_score_def Assignment_grade_cells_def Assignment_notebooks_def
      of_cell_type_def filter_concat map_map comp_def
      sum_list_concat_map sum_list_sort_key sum_list_map_filter' [of _ "\<lambda>n. _ n = Some _"] ..
  finally show ?thesis .
qed

lemma sql_scalar_where_flipped:
  "sql_scalar (map (\<lambda>r. Some (f r)) (sql_where (\<lambda>r. sql_eq (Some (key r)) k) rows))
     = map_option f (find (\<lambda>r. k = Some (key r)) rows)"
  by (induction rows) (auto simp: sql_scalar_def sql_where_def sql_eq_True)

lemma SubmittedNotebook_max_score_template:
  "SubmittedNotebook_max_score db s
     = map_option (Notebook_max_score db) (SubmittedNotebook_notebook db s)"
  unfolding SubmittedNotebook_max_score_def SubmittedNotebook_notebook_def
  by (rule sql_scalar_where)

lemma SubmittedNotebook_max_typed_score_template:
  "SubmittedNotebook_max_typed_score t db s
     = map_option (Notebook_max_typed_score t db) (SubmittedNotebook_notebook db s)"
  unfolding SubmittedNotebook_max_typed_score_def SubmittedNotebook_notebook_def
  by (rule sql_scalar_where_flipped)

lemma SubmittedAssignment_max_score_template:
  "SubmittedAssignment_max_score db s
     = map_option (Assignment_max_score db) (SubmittedAssignment_assignment db s)"
  unfolding SubmittedAssignment_max_score_def SubmittedAssignment_assignment_def
  by (rule sql_scalar_where)

lemma SubmittedAssignment_max_typed_score_template:
  "SubmittedAssignment_max_typed_score t db s
     = map_option (Assignment_max_typed_score t db) (SubmittedAssignment_assignment db s)"
  unfolding SubmittedAssignment_max_typed_score_def SubmittedAssignment_assignment_def
  by (rule sql_scalar_where_flipped)

lemma Student_max_score_all_assignments:
  "Student_max_score db s
     = total_max_score (concat (map (Assignment_grade_cells db) (assignments db)))"
  unfolding Student_max_score_def sql_sum_total Assignment_max_score_cells
  by (simp add: total_max_score_def sum_list_concat_map)

lemmas max_score_defs = Notebook_max_code_score_def Notebook_max_written_score_def
  Assignment_max_code_score_def Assignment_max_written_score_def
  SubmittedNotebook_max_code_score_def SubmittedNotebook_max_written_score_def
  SubmittedAssignment_max_code_score_def SubmittedAssignment_max_written_score_def

text \<open>
  C2, as the code has it.  The max_score of a Notebook and of an Assignment is the sum of
  max_score over the grade cells below it (0.0 when there is none), and the code and
  written variants restrict the sum to the cells of type code and markdown.  A
  SubmittedNotebook and a SubmittedAssignment report the value of the Notebook and the
  Assignment they were made from (NULL when that row is missing).  The max_score of a
  Student is the sum over the grade cells of every Assignment of the gradebook, whether
  or not the student has a submission for it.
\<close>

theorem max_score_rolls_up:
  "Notebook_max_score db n = total_max_score (Notebook_grade_cells db n)
   \<and> Notebook_max_code_score db n
       = total_max_score (of_cell_type Code (Notebook_grade_cells db n))
   \<and> Notebook_max_written_score db n
       = total_max_score (of_cell_type Markdown (Notebook_grade_cells db n))
   \<and> Assignment_max_score db a = total_max_score (Assignment_grade_cells db a)
   \<and> Assignment_max_code_score db a
       = total_max_score (of_cell_type Code (Assignment_grade_cells db a))
   \<and> Assignment_max_written_score db a
       = total_max_score (of_cell_type Markdown (Assignment_grade_cells db a))
   \<and> SubmittedNotebook_max_score db sn
       = map_option (\<lambda>t. total_max_score (Notebook_grade_cells db t))
           (SubmittedNotebook_notebook db sn)
   \<and> SubmittedNotebook_max_code_score db sn
       = map_option (\<lambda>t. total_max_score (of_cell_type Code (Notebook_grade_cells db t)))
           (SubmittedNotebook_notebook db sn)
   \<and> SubmittedNotebook_max_written_score db sn
       = map_option (\<lambda>t. total_max_score (of_cell_type Markdown (Notebook_grade_cells db t)))
           (SubmittedNotebook_notebook db sn)
   \<and> SubmittedAssignment_max_score db sa
       = map_option (\<lambda>t. total_max_score (Assignment_grade_cells db t))
           (SubmittedAssignment_assignment db sa)
   \<and> SubmittedAssignment_max_code_score db sa
       = map_option (\<lambda>t. total_max_score (of_cell_type Code (Assignment_grade_cells db t)))
           (SubmittedAssignment_assignment db sa)
   \<and> SubmittedAssignment_max_written_score db sa
       = map_option (\<lambda>t. total_max_score (of_cell_type Markdown (Assignment_grade_cells db t)))
           (SubmittedAssignment_assignment db sa)
   \<and> Student_max_score db st
       = total_max_score (concat (map (Assignment_grade_cells db) (assignments db)))
   \<and> total_max_score [] = 0"
  unfolding max_score_defs
  by (intro conjI)
     (simp_all add: Notebook_max_score_cells Notebook_max_typed_score_cells
        Assignment_max_score_cells Assignment_max_typed_score_cells
        SubmittedNotebook_max_score_template SubmittedNotebook_max_typed_score_template
        SubmittedAssignment_max_score_template SubmittedAssignment_max_typed_score_template
        Student_max_score_all_assignments total_max_score_def
        cong: map_option_cong)

lemma ex_relationships:
  "Notebook_grade_cells ex_db ex_notebook = [ex_code_cell, ex_written_cell]"
  "Assignment_notebooks ex_db ex_assignment = [ex_notebook]"
  "SubmittedNotebook_notebook ex_db ex_submitted_notebook = Some ex_notebook"
  "SubmittedAssignment_assignment ex_db ex_submission = Some ex_assignment"
  "assignments ex_db = [ex_assignment]"
  by (simp_all add: ex_defs Notebook_grade_cells_def Assignment_notebooks_def
        SubmittedNotebook_notebook_def SubmittedAssignment_assignment_def)

theorem max_score_rolls_up_witness:
  "Notebook_max_score ex_db ex_notebook = 5
   \<and> Notebook_max_code_score ex_db ex_notebook = 2
   \<and> Notebook_max_written_score ex_db ex_notebook = 3
   \<and> Assignment_max_score ex_db ex_assignment = 5
   \<and> Assignment_max_code_score ex_db ex_assignment = 2
   \<and> Assignment_max_written_score ex_db ex_assignment = 3
   \<and> SubmittedNotebook_max_score ex_db ex_submitted_notebook = Some 5
   \<and> SubmittedNotebook_max_code_score ex_db ex_submitted_notebook = Some 2
   \<and> SubmittedNotebook_max_written_score ex_db ex_submitted_notebook = Some 3
   \<and> SubmittedAssignment_max_score ex_db ex_submission = Some 5
   \<and> SubmittedAssignment_max_code_score ex_db ex_submission = Some 2
   \<and> SubmittedAssignment_max_written_score ex_db ex_submission = Some 3
   \<and> Student_max_score ex_db ex_student = 5"
  using max_score_rolls_up [of ex_db ex_notebook ex_assignment ex_submitted_notebook
          ex_submission ex_student]
  by (simp add: total_max_score_def of_cell_type_def ex_code_cell_def ex_written_cell_def
        ex_relationships Assignment_grade_cells_def)

text \<open>
  The claim as written gives a Student the sum over its own descendant grade cells.  In
  the example without the submission, student \<open>s1\<close> has no submission, hence no grade
  cell below it, and the code still reports the 5 points of \<open>hw1\<close>.
\<close>

theorem Student_max_score_counterexample:
  "Student_descendant_grade_cells ex_db_no_submission ex_student = []
   \<and> total_max_score (Student_descendant_grade_cells ex_db_no_submission ex_student) = 0
   \<and> Student_max_score ex_db_no_submission ex_student = 5"
  by (simp add: ex_db_no_submission_def ex_defs Student_descendant_grade_cells_def
        Student_submissions_def total_max_score_def Student_max_score_def
        Assignment_max_score_def sql_where_def sql_and_def sql_eq_def sql_sum_def
        sql_coalesce_def List.map_filter_def)

section \<open>A new submission mirrors its assignment\<close>

lemma unique_on_filter:
  "unique_on key rows \<Longrightarrow> r \<in> set rows \<Longrightarrow> key r = Some k
     \<Longrightarrow> filter (\<lambda>x. key x = Some k) rows = [r]"
proof (induction rows)
  case Nil
  then show ?case by simp
next
  case (Cons x xs)
  have tail: "unique_on key xs"
    using Cons.prems(1) by (cases "key x") (simp_all add: unique_on_def List.map_filter_simps)
  show ?case
  proof (cases "key x = Some k")
    case True
    then have "k \<notin> set (List.map_filter key xs)"
      using Cons.prems(1) by (simp add: unique_on_def List.map_filter_simps)
    then have none: "\<forall>y \<in> set xs. key y \<noteq> Some k"
      by (force simp: List.map_filter_def)
    then have "r = x" using Cons.prems(2,3) by auto
    moreover have "filter (\<lambda>x. key x = Some k) xs = []"
      using none by (simp add: filter_empty_conv)
    ultimately show ?thesis using True by simp
  next
    case False
    then have "r \<in> set xs" using Cons.prems(2,3) by auto
    then show ?thesis using Cons.IH [OF tail _ Cons.prems(3)] False by simp
  qed
qed

lemma pair_key_Some: "pair_key x y = Some (a, b) \<longleftrightarrow> x = Some a \<and> y = Some b"
  by (cases x; cases y) (auto simp: pair_key_def)

lemma new_grades_mem:
  "c \<in> set cells \<Longrightarrow> \<exists>g \<in> set (new_grades uuid k nb cells).
      g_cell_id g = Some (gc_id c) \<and> g_notebook_id g = Some nb"
proof -
  assume "c \<in> set cells"
  then have "c \<in> snd ` set (enumerate 0 cells)"
    by (metis map_snd_enumerate set_map)
  then obtain i where "(i, c) \<in> set (enumerate 0 cells)" by auto
  then show ?thesis unfolding new_grades_def by force
qed

lemma new_grades_unset:
  "g \<in> set (new_grades uuid k nb cells) \<Longrightarrow> g_auto_score g = None \<and> g_manual_score g = None"
  unfolding new_grades_def by auto

lemma new_comments_mem:
  "c \<in> set cells \<Longrightarrow> \<exists>g \<in> set (new_comments uuid k nb cells).
      cm_cell_id g = Some (sc_id c) \<and> cm_notebook_id g = Some nb"
proof -
  assume "c \<in> set cells"
  then have "c \<in> snd ` set (enumerate 0 cells)"
    by (metis map_snd_enumerate set_map)
  then obtain i where "(i, c) \<in> set (enumerate 0 cells)" by auto
  then show ?thesis unfolding new_comments_def by force
qed

lemma new_comments_unset:
  "g \<in> set (new_comments uuid k nb cells) \<Longrightarrow> cm_comment g = None"
  unfolding new_comments_def by auto

lemma mirror_notebooks_Cons:
  assumes "mirror_notebooks db uuid k sid (m # ns) = (nbs, gs, cs)"
  obtains nbs' gs' cs' where
    "mirror_notebooks db uuid (k + 1 + length (Notebook_grade_cells db m)
        + length (Notebook_solution_cells db m)) sid ns = (nbs', gs', cs')"
    "nbs = \<lparr>sn_id = uuid k, sn_notebook_id = Some (nb_id m),
                sn_assignment_id = Some sid\<rparr> # nbs'"
    "gs = new_grades uuid (k + 1) (uuid k) (Notebook_grade_cells db m) @ gs'"
    "cs = new_comments uuid (k + 1 + length (Notebook_grade_cells db m)) (uuid k)
            (Notebook_solution_cells db m) @ cs'"
proof -
  obtain nbs' gs' cs' where rest:
    "mirror_notebooks db uuid (k + 1 + length (Notebook_grade_cells db m)
        + length (Notebook_solution_cells db m)) sid ns = (nbs', gs', cs')"
    using prod_cases3 by blast
  show thesis
    using assms rest by (intro that [OF rest]) (simp_all add: Let_def)
qed

lemma mirror_notebooks_unset:
  "mirror_notebooks db uuid k sid ns = (nbs, gs, cs) \<Longrightarrow>
     (\<forall>g \<in> set gs. g_auto_score g = None \<and> g_manual_score g = None) \<and>
     (\<forall>c \<in> set cs. cm_comment c = None)"
proof (induction ns arbitrary: k nbs gs cs)
  case Nil
  then show ?case by simp
next
  case (Cons m ns)
  from Cons.prems obtain nbs' gs' cs' where rest:
    "mirror_notebooks db uuid (k + 1 + length (Notebook_grade_cells db m)
        + length (Notebook_solution_cells db m)) sid ns = (nbs', gs', cs')"
    and gs: "gs = new_grades uuid (k + 1) (uuid k) (Notebook_grade_cells db m) @ gs'"
    and cs: "cs = new_comments uuid (k + 1 + length (Notebook_grade_cells db m)) (uuid k)
            (Notebook_solution_cells db m) @ cs'"
    by (rule mirror_notebooks_Cons)
  from Cons.IH [OF rest] show ?case
    unfolding gs cs using new_grades_unset new_comments_unset by (simp add: ball_Un)
qed

lemma mirror_notebooks_mem:
  "mirror_notebooks db uuid k sid ns = (nbs, gs, cs) \<Longrightarrow> n \<in> set ns \<Longrightarrow>
     \<exists>nb \<in> set nbs. sn_notebook_id nb = Some (nb_id n) \<and> sn_assignment_id nb = Some sid \<and>
        (\<forall>c \<in> set (Notebook_grade_cells db n). \<exists>g \<in> set gs.
            g_cell_id g = Some (gc_id c) \<and> g_notebook_id g = Some (sn_id nb)) \<and>
        (\<forall>c \<in> set (Notebook_solution_cells db n). \<exists>x \<in> set cs.
            cm_cell_id x = Some (sc_id c) \<and> cm_notebook_id x = Some (sn_id nb))"
proof (induction ns arbitrary: k nbs gs cs)
  case Nil
  then show ?case by simp
next
  case (Cons m ns)
  define nb where "nb = \<lparr>sn_id = uuid k, sn_notebook_id = Some (nb_id m),
                sn_assignment_id = Some sid\<rparr>"
  from Cons.prems(1) obtain nbs' gs' cs' where rest:
    "mirror_notebooks db uuid (k + 1 + length (Notebook_grade_cells db m)
        + length (Notebook_solution_cells db m)) sid ns = (nbs', gs', cs')"
    and nbs: "nbs = nb # nbs'"
    and gs: "gs = new_grades uuid (k + 1) (sn_id nb) (Notebook_grade_cells db m) @ gs'"
    and cs: "cs = new_comments uuid (k + 1 + length (Notebook_grade_cells db m)) (sn_id nb)
                    (Notebook_solution_cells db m) @ cs'"
    unfolding nb_def by (rule mirror_notebooks_Cons) simp
  show ?case
  proof (cases "n = m")
    case True
    have "sn_notebook_id nb = Some (nb_id n)" "sn_assignment_id nb = Some sid"
      by (simp_all add: nb_def True)
    moreover have "\<forall>c \<in> set (Notebook_grade_cells db n). \<exists>g \<in> set gs.
            g_cell_id g = Some (gc_id c) \<and> g_notebook_id g = Some (sn_id nb)"
      using new_grades_mem [of _ "Notebook_grade_cells db m" uuid "k + 1" "sn_id nb"]
      unfolding gs True by auto
    moreover have "\<forall>c \<in> set (Notebook_solution_cells db n). \<exists>x \<in> set cs.
            cm_cell_id x = Some (sc_id c) \<and> cm_notebook_id x = Some (sn_id nb)"
      using new_comments_mem [of _ "Notebook_solution_cells db m" uuid _ "sn_id nb"]
      unfolding cs True by auto
    ultimately show ?thesis unfolding nbs by auto
  next
    case False
    then have "n \<in> set ns" using Cons.prems(2) by simp
    from Cons.IH [OF rest this] obtain x where x: "x \<in> set nbs'"
      "sn_notebook_id x = Some (nb_id n)" "sn_assignment_id x = Some sid"
      "\<forall>c \<in> set (Notebook_grade_cells db n). \<exists>g \<in> set gs'.
            g_cell_id g = Some (gc_id c) \<and> g_notebook_id g = Some (sn_id x)"
      "\<forall>c \<in> set (Notebook_solution_cells db n). \<exists>y \<in> set cs'.
            cm_cell_id y = Some (sc_id c) \<and> cm_notebook_id y = Some (sn_id x)"
      by blast
    show ?thesis
    proof (intro bexI [of _ x] conjI)
      show "x \<in> set nbs" using x(1) nbs by simp
      show "\<forall>c \<in> set (Notebook_grade_cells db n). \<exists>g \<in> set gs.
            g_cell_id g = Some (gc_id c) \<and> g_notebook_id g = Some (sn_id x)"
        using x(4) unfolding gs by (simp add: bex_Un)
      show "\<forall>c \<in> set (Notebook_solution_cells db n). \<exists>y \<in> set cs.
            cm_cell_id y = Some (sc_id c) \<and> cm_notebook_id y = Some (sn_id x)"
        using x(5) unfolding cs by (simp add: bex_Un)
    qed (use x in simp_all)
  qed
qed

lemma session_commit_success:
  "session_commit gb = (Inr u, gb') \<Longrightarrow>
     \<not> gb_inactive gb \<and> integrity_ok (gb_session gb) \<and> gb' = gb\<lparr>gb_store := gb_session gb\<rparr>"
  by (auto simp: session_commit_def split: if_splits)

lemma commit_or_rollback_success:
  "commit_or_rollback gb = (Inr u, gb') \<Longrightarrow>
     \<not> gb_inactive gb \<and> integrity_ok (gb_session gb) \<and> gb' = gb\<lparr>gb_store := gb_session gb\<rparr>"
  unfolding commit_or_rollback_def
  by (cases "session_commit gb") (auto split: sum.splits if_splits dest: session_commit_success)

lemma add_submission_success:
  assumes "add_submission gb uuid parse_utc assignment student kwargs = (Inr submission, gb')"
  obtains a s nbs gs cs where
    "find_assignment gb assignment = Inr a"
    "find_student gb student = Inr s"
    "mirror_notebooks (gb_session gb) uuid 1 (uuid 0)
        (Assignment_notebooks (gb_session gb) a) = (nbs, gs, cs)"
    "sa_id submission = uuid 0"
    "sa_assignment_id submission = Some (a_id a)"
    "sa_student_id submission = Some (st_id s)"
    "gb_store gb' = (gb_session gb)\<lparr>
        submitted_assignments := submitted_assignments (gb_session gb) @ [submission],
        submitted_notebooks := submitted_notebooks (gb_session gb) @ nbs,
        grades := grades (gb_session gb) @ gs,
        comments := comments (gb_session gb) @ cs\<rparr>"
    "gb_session gb' = gb_store gb'"
    "integrity_ok (gb_store gb')"
proof -
  from assms obtain ts where ts:
    "(case kw_timestamp kwargs of None \<Rightarrow> Inr None | Some t \<Rightarrow> parse_utc t) = Inr ts"
    unfolding add_submission_def by (auto split: sum.splits)
  from assms ts obtain a where a: "find_assignment gb assignment = Inr a"
    unfolding add_submission_def by (auto split: sum.splits)
  from assms ts a obtain s where s: "find_student gb student = Inr s"
    unfolding add_submission_def by (auto split: sum.splits)
  obtain nbs gs cs where m:
    "mirror_notebooks (gb_session gb) uuid 1 (uuid 0)
        (Assignment_notebooks (gb_session gb) a) = (nbs, gs, cs)"
    using prod_cases3 by blast
  define sub where "sub = \<lparr>sa_id = uuid 0, sa_assignment_id = Some (a_id a),
                  sa_student_id = Some (st_id s), sa_timestamp = ts,
                  sa_extension = kw_extension kwargs\<rparr>"
  define gb1 where "gb1 = gb\<lparr>gb_session := (gb_session gb)\<lparr>
        submitted_assignments := submitted_assignments (gb_session gb) @ [sub],
        submitted_notebooks := submitted_notebooks (gb_session gb) @ nbs,
        grades := grades (gb_session gb) @ gs,
        comments := comments (gb_session gb) @ cs\<rparr>\<rparr>"
  have "(case commit_or_rollback gb1 of
                (Inl e, gb2) \<Rightarrow> (Inl e, gb2)
              | (Inr _, gb2) \<Rightarrow> (Inr sub, gb2)) = (Inr submission, gb')"
    using assms unfolding add_submission_def ts a s sub_def gb1_def
    by (simp add: Let_def m [unfolded One_nat_def])
  then have c: "commit_or_rollback gb1 = (Inr (), gb')" and sub: "submission = sub"
    by (auto split: prod.splits sum.splits)
  from commit_or_rollback_success [OF c]
  have "integrity_ok (gb_session gb1)" "gb' = gb1\<lparr>gb_store := gb_session gb1\<rparr>" by simp_all
  then show thesis
    using a s m by (intro that [of a s nbs gs cs]) (simp_all add: sub gb1_def sub_def)
qed


lemma filter_pair_key:
  "filter (\<lambda>x. f x = Some a) (filter (\<lambda>x. g x = Some b) rows)
     = filter (\<lambda>x. pair_key (f x) (g x) = Some (a, b)) rows"
  by (simp add: pair_key_Some conj_commute)

text \<open>
  C5, as the code has it.  After a successful add_submission(assignment, student), the
  new SubmittedAssignment belongs to the assignment and has, for every Notebook of the
  assignment, exactly one SubmittedNotebook; that SubmittedNotebook has exactly one Grade
  for every GradeCell of the Notebook, with auto_score and manual_score unset, and
  exactly one Comment for every SolutionCell, whose text is unset (NULL, not the empty
  string).
\<close>

theorem add_submission_mirrors_assignment:
  assumes ok: "add_submission gb uuid parse_utc assignment student kwargs = (Inr submission, gb')"
      and a: "find_assignment gb assignment = Inr a"
      and n: "n \<in> set (Assignment_notebooks (gb_store gb') a)"
  shows "submission \<in> set (Assignment_submissions (gb_store gb') a) \<and>
     (\<exists>nb. filter (\<lambda>x. sn_notebook_id x = Some (nb_id n))
               (SubmittedAssignment_notebooks (gb_store gb') submission) = [nb] \<and>
        (\<forall>c \<in> set (Notebook_grade_cells (gb_store gb') n).
           \<exists>g. filter (\<lambda>x. g_cell_id x = Some (gc_id c))
                  (SubmittedNotebook_grades (gb_store gb') nb) = [g] \<and>
               g_auto_score g = None \<and> g_manual_score g = None) \<and>
        (\<forall>c \<in> set (Notebook_solution_cells (gb_store gb') n).
           \<exists>k. filter (\<lambda>x. cm_cell_id x = Some (sc_id c))
                  (SubmittedNotebook_comments (gb_store gb') nb) = [k] \<and>
               cm_comment k = None))"
proof -
  define V where "V = gb_session gb"
  define V' where "V' = gb_store gb'"
  from ok a obtain s nbs gs cs where
    m: "mirror_notebooks V uuid 1 (uuid 0) (Assignment_notebooks V a) = (nbs, gs, cs)"
    and sid: "sa_id submission = uuid 0"
    and said: "sa_assignment_id submission = Some (a_id a)"
    and V': "V' = V\<lparr>submitted_assignments := submitted_assignments V @ [submission],
        submitted_notebooks := submitted_notebooks V @ nbs,
        grades := grades V @ gs, comments := comments V @ cs\<rparr>"
    and int: "integrity_ok V'"
    unfolding V_def V'_def by (elim add_submission_success) simp
  have frame: "Assignment_notebooks V' a = Assignment_notebooks V a"
    "Notebook_grade_cells V' n = Notebook_grade_cells V n"
    "Notebook_solution_cells V' n = Notebook_solution_cells V n"
    by (simp_all add: V' Assignment_notebooks_def Notebook_grade_cells_def
          Notebook_solution_cells_def)
  have sub: "submission \<in> set (Assignment_submissions V' a)"
    by (simp add: Assignment_submissions_def V' said)
  from n have "n \<in> set (Assignment_notebooks V a)" by (simp add: V'_def [symmetric] frame)
  from mirror_notebooks_mem [OF m this] obtain nb where nb: "nb \<in> set nbs"
    "sn_notebook_id nb = Some (nb_id n)" "sn_assignment_id nb = Some (uuid 0)"
    and nb_g: "\<forall>c \<in> set (Notebook_grade_cells V n). \<exists>g \<in> set gs.
            g_cell_id g = Some (gc_id c) \<and> g_notebook_id g = Some (sn_id nb)"
    and nb_c: "\<forall>c \<in> set (Notebook_solution_cells V n). \<exists>x \<in> set cs.
            cm_cell_id x = Some (sc_id c) \<and> cm_notebook_id x = Some (sn_id nb)"
    by blast
  have u_sn: "unique_on (\<lambda>s. pair_key (sn_notebook_id s) (sn_assignment_id s))
       (submitted_notebooks V')"
    and u_g: "unique_on (\<lambda>g. pair_key (g_cell_id g) (g_notebook_id g)) (grades V')"
    and u_c: "unique_on (\<lambda>c. pair_key (cm_cell_id c) (cm_notebook_id c)) (comments V')"
    using int by (simp_all add: integrity_ok_def)
  have "nb \<in> set (submitted_notebooks V')" using nb(1) by (simp add: V')
  from unique_on_filter [OF u_sn this, of "(nb_id n, uuid 0)"]
  have one_nb: "filter (\<lambda>x. sn_notebook_id x = Some (nb_id n))
               (SubmittedAssignment_notebooks V' submission) = [nb]"
    unfolding SubmittedAssignment_notebooks_def filter_pair_key sid
    by (simp add: pair_key_Some nb)
  have grades_ok: "\<exists>g. filter (\<lambda>x. g_cell_id x = Some (gc_id c))
                  (SubmittedNotebook_grades V' nb) = [g] \<and>
               g_auto_score g = None \<and> g_manual_score g = None"
    if "c \<in> set (Notebook_grade_cells V' n)" for c
  proof -
    from that nb_g obtain g where g: "g \<in> set gs" "g_cell_id g = Some (gc_id c)"
      "g_notebook_id g = Some (sn_id nb)"
      unfolding frame by blast
    have "g \<in> set (grades V')" using g(1) by (simp add: V')
    from unique_on_filter [OF u_g this, of "(gc_id c, sn_id nb)"]
    have "filter (\<lambda>x. g_cell_id x = Some (gc_id c)) (SubmittedNotebook_grades V' nb) = [g]"
      unfolding SubmittedNotebook_grades_def filter_pair_key
      by (simp add: pair_key_Some g)
    moreover have "g_auto_score g = None \<and> g_manual_score g = None"
      using mirror_notebooks_unset [OF m] g(1) by blast
    ultimately show ?thesis by blast
  qed
  have comments_ok: "\<exists>k. filter (\<lambda>x. cm_cell_id x = Some (sc_id c))
                  (SubmittedNotebook_comments V' nb) = [k] \<and> cm_comment k = None"
    if "c \<in> set (Notebook_solution_cells V' n)" for c
  proof -
    from that nb_c obtain k where k: "k \<in> set cs" "cm_cell_id k = Some (sc_id c)"
      "cm_notebook_id k = Some (sn_id nb)"
      unfolding frame by blast
    have "k \<in> set (comments V')" using k(1) by (simp add: V')
    from unique_on_filter [OF u_c this, of "(sc_id c, sn_id nb)"]
    have "filter (\<lambda>x. cm_cell_id x = Some (sc_id c)) (SubmittedNotebook_comments V' nb) = [k]"
      unfolding SubmittedNotebook_comments_def filter_pair_key
      by (simp add: pair_key_Some k)
    moreover have "cm_comment k = None"
      using mirror_notebooks_unset [OF m] k(1) by blast
    ultimately show ?thesis by blast
  qed
  show ?thesis
    unfolding V'_def [symmetric] using sub one_nb grades_ok comments_ok by blast
qed

lemmas ex_submission_defs = ex_gradebook_def ex_db_no_submission_def ex_defs ex_kwargs_def
  ex_parse_utc_def ex_uuid_def ex_new_submission_def ex_db_submitted_def

lemmas facade_defs = find_assignment_def find_student_def session_query_def query_one_def
  or_missing_entry_def commit_or_rollback_def session_commit_def session_rollback_def
  integrity_ok_def unique_on_def pair_key_def List.map_filter_simps

lemma ex_add_submission:
  "add_submission ex_gradebook ex_uuid ex_parse_utc ''hw1'' ''s1'' ex_kwargs
     = (Inr ex_new_submission,
        \<lparr>gb_store = ex_db_submitted, gb_session = ex_db_submitted, gb_inactive = False\<rparr>)"
  by (simp add: add_submission_def facade_defs ex_submission_defs Let_def
        Assignment_notebooks_def Notebook_grade_cells_def Notebook_solution_cells_def
        new_grades_def new_comments_def enumerate_eq_zip)

lemma ex_find_assignment: "find_assignment ex_gradebook ''hw1'' = Inr ex_assignment"
  by (simp add: facade_defs ex_submission_defs)

lemma ex_notebook_submitted:
  "ex_notebook \<in> set (Assignment_notebooks ex_db_submitted ex_assignment)"
  by (simp add: Assignment_notebooks_def ex_submission_defs)

theorem add_submission_mirrors_assignment_witness:
  "ex_new_submission \<in> set (Assignment_submissions ex_db_submitted ex_assignment) \<and>
   (\<exists>nb. filter (\<lambda>x. sn_notebook_id x = Some (nb_id ex_notebook))
             (SubmittedAssignment_notebooks ex_db_submitted ex_new_submission) = [nb] \<and>
      (\<forall>c \<in> set (Notebook_grade_cells ex_db_submitted ex_notebook).
         \<exists>g. filter (\<lambda>x. g_cell_id x = Some (gc_id c))
                (SubmittedNotebook_grades ex_db_submitted nb) = [g] \<and>
             g_auto_score g = None \<and> g_manual_score g = None) \<and>
      (\<forall>c \<in> set (Notebook_solution_cells ex_db_submitted ex_notebook).
         \<exists>k. filter (\<lambda>x. cm_cell_id x = Some (sc_id c))
                (SubmittedNotebook_comments ex_db_submitted nb) = [k] \<and>
             cm_comment k = None))"
  using add_submission_mirrors_assignment [OF ex_add_submission ex_find_assignment, of ex_notebook]
    ex_notebook_submitted
  by simp

text \<open>
  The claim as written gives the new comments an empty text.  In the example the one
  comment created for the solution cell has no text at all: the column is NULL
  (Python's \<open>None\<close>), which is not the empty string.
\<close>

theorem add_submission_comment_text_counterexample:
  "add_submission ex_gradebook ex_uuid ex_parse_utc ''hw1'' ''s1'' ex_kwargs
     = (Inr ex_new_submission,
        \<lparr>gb_store = ex_db_submitted, gb_session = ex_db_submitted, gb_inactive = False\<rparr>)
   \<and> map cm_comment (comments ex_db_submitted) = [None]
   \<and> \<not> (\<exists>k \<in> set (comments ex_db_submitted). cm_comment k = Some [])"
  using ex_add_submission by (simp add: ex_db_submitted_def)

section \<open>Rollback when a mutation is refused\<close>

lemma commit_or_rollback_InvalidEntry:
  "commit_or_rollback gb = (Inl InvalidEntry, gb') \<Longrightarrow>
     gb' = \<lparr>gb_store = gb_store gb, gb_session = gb_store gb, gb_inactive = False\<rparr>"
  by (auto simp: commit_or_rollback_def session_commit_def session_rollback_def
        split: if_splits)

text \<open>
  The methods that end with the handler calling \<^verbatim>\<open>self.db.rollback()\<close> leave the
  committed rows as they were and the session clean when they raise InvalidEntry; shown
  here for \<^verbatim>\<open>add_student\<close> and \<^verbatim>\<open>update_or_create_grade_cell\<close>.
\<close>

lemma add_student_InvalidEntry_rolled_back:
  "add_student gb student_id kwargs = (Inl InvalidEntry, gb') \<Longrightarrow>
     gb' = \<lparr>gb_store = gb_store gb, gb_session = gb_store gb, gb_inactive = False\<rparr>"
  unfolding add_student_def Let_def
  by (auto split: prod.splits sum.splits dest!: commit_or_rollback_InvalidEntry)

lemma ex_update_grade_cell_rolled_back:
  "update_or_create_grade_cell ex_gradebook_two_notebooks ''x'' ''answer'' ''nb1'' ''hw1''
       [GC_notebook_id (Some ''N2'')]
     = (Inl InvalidEntry, ex_gradebook_two_notebooks)"
  by (simp add: update_or_create_grade_cell_def find_grade_cell_def facade_defs sql_eq_def
        ex_gradebook_two_notebooks_def ex_db_two_notebooks_def ex_defs Let_def)

lemma update_or_create_grade_cell_InvalidEntry_rolled_back:
  "update_or_create_grade_cell gb uuid name notebook assignment kwargs = (Inl InvalidEntry, gb')
     \<Longrightarrow> find_grade_cell gb name notebook assignment = Inr c
     \<Longrightarrow> gb' = \<lparr>gb_store = gb_store gb, gb_session = gb_store gb, gb_inactive = False\<rparr>"
  unfolding update_or_create_grade_cell_def Let_def
  by (auto split: prod.splits sum.splits dest!: commit_or_rollback_InvalidEntry)

lemma add_submission_InvalidEntry_rolled_back:
  "add_submission gb uuid parse_utc assignment student kwargs = (Inl InvalidEntry, gb')
     \<Longrightarrow> find_assignment gb assignment = Inr a \<Longrightarrow> find_student gb student = Inr s
     \<Longrightarrow> (case kw_timestamp kwargs of None \<Rightarrow> Inr None | Some ts \<Rightarrow> parse_utc ts) = Inr t
     \<Longrightarrow> gb' = \<lparr>gb_store = gb_store gb, gb_session = gb_store gb, gb_inactive = False\<rparr>"
  unfolding add_submission_def Let_def
  by (auto split: prod.splits sum.splits dest!: commit_or_rollback_InvalidEntry)

lemma remove_submission_InvalidEntry_rolled_back:
  "remove_submission gb assignment student = (Inl InvalidEntry, gb')
     \<Longrightarrow> find_submission gb assignment student = Inr s
     \<Longrightarrow> gb' = \<lparr>gb_store = gb_store gb, gb_session = gb_store gb, gb_inactive = False\<rparr>"
  unfolding remove_submission_def Let_def
  by (auto split: prod.splits sum.splits dest!: commit_or_rollback_InvalidEntry)

text \<open>
  C6 at \<^verbatim>\<open>update_or_create_solution_cell\<close>.  In the gradebook with two notebooks the
  call \<^verbatim>\<open>update_or_create_solution_cell("answer", "nb1", "hw1", notebook_id="N2")\<close>
  finds the cell, assigns the column and fails to commit, because notebook \<open>N2\<close> already
  has a solution cell of that name.  InvalidEntry is raised and the committed rows are
  as before, but the session is not rolled back: it stays inactive, so the next lookup
  and the next mutation raise InvalidRequestError.  The rollback the handler leaves out
  would have given back the gradebook as it was, which is what the same call on the
  grade cell does.
\<close>

theorem update_or_create_solution_cell_leaves_session_inactive:
  "(case update_or_create_solution_cell ex_gradebook_two_notebooks ''x'' ''answer'' ''nb1''
           ''hw1'' [SC_notebook_id (Some ''N2'')] of
      (r, gb') \<Rightarrow>
        r = Inl InvalidEntry \<and> gb_store gb' = ex_db_two_notebooks \<and> gb_inactive gb' \<and>
        gb' \<noteq> ex_gradebook_two_notebooks \<and>
        find_assignment gb' ''hw1'' = Inl InvalidRequestError \<and>
        fst (add_student gb' ''s2'' []) = Inl InvalidRequestError \<and>
        session_rollback gb' = ex_gradebook_two_notebooks)
   \<and> update_or_create_grade_cell ex_gradebook_two_notebooks ''x'' ''answer'' ''nb1'' ''hw1''
         [GC_notebook_id (Some ''N2'')]
       = (Inl InvalidEntry, ex_gradebook_two_notebooks)"
  by (simp add: update_or_create_solution_cell_def find_solution_cell_def
        update_or_create_grade_cell_def find_grade_cell_def add_student_def new_student_def
        facade_defs sql_eq_def ex_gradebook_two_notebooks_def ex_db_two_notebooks_def
        ex_defs Let_def)

section \<open>Removing an assignment removes everything below it\<close>

lemma fold_delete_grade:
  "fold delete_grade gs d = d\<lparr>grades := filter (\<lambda>x. g_id x \<notin> g_id ` set gs) (grades d)\<rparr>"
  by (induction gs arbitrary: d) (auto simp: delete_grade_def intro!: filter_cong)

lemma fold_delete_comment:
  "fold delete_comment cs d
     = d\<lparr>comments := filter (\<lambda>x. cm_id x \<notin> cm_id ` set cs) (comments d)\<rparr>"
  by (induction cs arbitrary: d) (auto simp: delete_comment_def intro!: filter_cong)

lemma fold_delete_grade_cell:
  "fold delete_grade_cell cs d
     = d\<lparr>grade_cells := filter (\<lambda>x. gc_id x \<notin> gc_id ` set cs) (grade_cells d)\<rparr>"
  by (induction cs arbitrary: d) (auto simp: delete_grade_cell_def intro!: filter_cong)

lemma fold_delete_solution_cell:
  "fold delete_solution_cell cs d
     = d\<lparr>solution_cells := filter (\<lambda>x. sc_id x \<notin> sc_id ` set cs) (solution_cells d)\<rparr>"
  by (induction cs arbitrary: d) (auto simp: delete_solution_cell_def intro!: filter_cong)

lemma remove_submitted_notebook_eq:
  "remove_submitted_notebook x d =
     d\<lparr>grades := filter (\<lambda>g. g_id g \<notin> g_id ` set (SubmittedNotebook_grades d x)) (grades d),
       comments := filter (\<lambda>k. cm_id k \<notin> cm_id ` set (SubmittedNotebook_comments d x))
                     (comments d),
       submitted_notebooks := filter (\<lambda>y. sn_id y \<noteq> sn_id x) (submitted_notebooks d)\<rparr>"
  by (simp add: remove_submitted_notebook_def Let_def fold_delete_grade fold_delete_comment
        delete_submitted_notebook_def SubmittedNotebook_comments_def)

lemma removal_inv_remove_submitted_notebook:
  assumes "removal_inv d0 d"
  shows "removal_inv d0 (remove_submitted_notebook x d)"
proof -
  have g: "g_notebook_id g \<noteq> Some (sn_id x)"
    if "g \<in> set (grades (remove_submitted_notebook x d))" for g
    using that by (auto simp: remove_submitted_notebook_eq SubmittedNotebook_grades_def)
  have k: "cm_notebook_id k \<noteq> Some (sn_id x)"
    if "k \<in> set (comments (remove_submitted_notebook x d))" for k
    using that by (auto simp: remove_submitted_notebook_eq SubmittedNotebook_comments_def)
  show ?thesis
    using assms g k unfolding removal_inv_def
    by (simp add: remove_submitted_notebook_eq subset_iff) metis
qed


lemma fold_remove_submitted_notebook_inv:
  "removal_inv d0 d \<Longrightarrow> removal_inv d0 (fold remove_submitted_notebook xs d)"
  by (induction xs arbitrary: d) (simp_all add: removal_inv_remove_submitted_notebook)

lemma fold_remove_submitted_notebook_tables:
  "submitted_assignments (fold remove_submitted_notebook xs d) = submitted_assignments d"
  "set (submitted_notebooks (fold remove_submitted_notebook xs d))
     = {y \<in> set (submitted_notebooks d). sn_id y \<notin> sn_id ` set xs}"
  by (induction xs arbitrary: d) (auto simp: remove_submitted_notebook_eq)

lemma query_one_Inr: "query_one rows = Inr r \<longleftrightarrow> rows = [r]"
  by (auto simp: query_one_def split: list.splits)

lemma or_missing_entry_Inr: "or_missing_entry r = Inr x \<longleftrightarrow> r = Inr x"
  by (auto simp: or_missing_entry_def split: sum.splits)

lemma session_query_Inr:
  "session_query gb q = Inr x \<longleftrightarrow> \<not> gb_inactive gb \<and> q (gb_session gb) = Inr x"
  by (simp add: session_query_def)

lemma find_submission_is:
  assumes "find_submission gb name st = Inr s'"
    and "s \<in> set (submitted_assignments (gb_session gb))"
    and "a \<in> set (assignments (gb_session gb))" "a_name a = name"
    and "sa_assignment_id s = Some (a_id a)"
    and "x \<in> set (students (gb_session gb))" "st_id x = st"
    and "sa_student_id s = Some st"
  shows "s' = s"
proof -
  let ?rows = "filter (\<lambda>(s, a, x). sql_eq (Some (a_id a)) (sa_assignment_id s) = Some True \<and>
                             sql_eq (Some (st_id x)) (sa_student_id s) = Some True \<and>
                             a_name a = name \<and> st_id x = st)
          (List.product (submitted_assignments (gb_session gb))
             (List.product (assignments (gb_session gb)) (students (gb_session gb))))"
  from assms(1) have one: "map fst ?rows = [s']"
    by (simp add: find_submission_def session_query_Inr or_missing_entry_Inr query_one_Inr)
  have "(s, a, x) \<in> set ?rows"
    using assms(2-) by (simp add: sql_eq_True)
  then have "s \<in> set (map fst ?rows)" by force
  then show ?thesis unfolding one by simp
qed

lemma remove_submission_success:
  assumes "remove_submission gb name st = (Inr (), gb')"
    and "removal_inv d0 (gb_session gb)"
  obtains s where "find_submission gb name st = Inr s"
    "removal_inv d0 (gb_session gb')"
    "gb_store gb' = gb_session gb'"
    "set (submitted_assignments (gb_session gb'))
       = {r \<in> set (submitted_assignments (gb_session gb)). sa_id r \<noteq> sa_id s}"
proof -
  define d where "d = gb_session gb"
  from assms(1) obtain s where s: "find_submission gb name st = Inr s"
    unfolding remove_submission_def by (auto split: sum.splits)
  define d1 where "d1 = fold remove_submitted_notebook (SubmittedAssignment_notebooks d s) d"
  define d2 where "d2 = delete_submitted_assignment s d1"
  have "commit_or_rollback (gb\<lparr>gb_session := d2\<rparr>) = (Inr (), gb')"
    using assms(1) unfolding remove_submission_def s d2_def d1_def d_def by (simp add: Let_def)
  from commit_or_rollback_success [OF this]
  have gb': "gb' = gb\<lparr>gb_session := d2, gb_store := d2\<rparr>" by simp
  have inv1: "removal_inv d0 d1"
    unfolding d1_def using assms(2) d_def by (simp add: fold_remove_submitted_notebook_inv)
  have sa1: "submitted_assignments d1 = submitted_assignments d"
    and sn1: "set (submitted_notebooks d1) = {y \<in> set (submitted_notebooks d).
                 sn_id y \<notin> sn_id ` set (SubmittedAssignment_notebooks d s)}"
    unfolding d1_def by (simp_all add: fold_remove_submitted_notebook_tables)
  have gone: "sn_assignment_id x \<noteq> Some (sa_id s)" if "x \<in> set (submitted_notebooks d1)" for x
    using that unfolding sn1 by (auto simp: SubmittedAssignment_notebooks_def)
  have d2: "d2 = d1\<lparr>submitted_assignments :=
                    filter (\<lambda>x. sa_id x \<noteq> sa_id s) (submitted_assignments d1)\<rparr>"
    by (simp add: d2_def delete_submitted_assignment_def)
  have inv2: "removal_inv d0 d2"
    using inv1 gone unfolding removal_inv_def d2 by (simp add: subset_iff) metis
  show thesis
    by (rule that [OF s]) (simp_all add: gb' inv2, auto simp: d2 sa1 d_def)
qed

lemma SubmittedAssignment_student_Some:
  "SubmittedAssignment_student d s = Some x \<Longrightarrow>
     x \<in> set (students d) \<and> sa_student_id s = Some (st_id x)"
  by (auto simp: SubmittedAssignment_student_def find_Some_iff in_set_conv_nth)

lemma remove_submissions_success:
  assumes "remove_submissions gb name ss = (Inr (), gb')"
    and "removal_inv d0 (gb_session gb)"
    and "a \<in> set (assignments d0)" "a_name a = name"
    and "\<forall>s \<in> set ss. sa_assignment_id s = Some (a_id a)"
  shows "removal_inv d0 (gb_session gb') \<and>
         set (submitted_assignments (gb_session gb'))
           \<subseteq> set (submitted_assignments (gb_session gb)) \<and>
         (\<forall>s \<in> set ss. s \<notin> set (submitted_assignments (gb_session gb'))) \<and>
         (ss \<noteq> [] \<longrightarrow> gb_store gb' = gb_session gb')"
  using assms
proof (induction ss arbitrary: gb)
  case Nil
  then show ?case by simp
next
  case (Cons s ss)
  from Cons.prems(1) obtain x where x: "SubmittedAssignment_student (gb_session gb) s = Some x"
    by (auto split: option.splits)
  from Cons.prems(1) x obtain gb1 where
    r: "remove_submission gb name (st_id x) = (Inr (), gb1)"
    and rest: "remove_submissions gb1 name ss = (Inr (), gb')"
    by (auto split: prod.splits sum.splits)
  from remove_submission_success [OF r Cons.prems(2)] obtain s' where
    s': "find_submission gb name (st_id x) = Inr s'"
    and inv1: "removal_inv d0 (gb_session gb1)"
    and st1: "gb_store gb1 = gb_session gb1"
    and sa1: "set (submitted_assignments (gb_session gb1))
       = {r \<in> set (submitted_assignments (gb_session gb)). sa_id r \<noteq> sa_id s'}"
    by blast
  have a_in: "a \<in> set (assignments (gb_session gb))"
    using Cons.prems(2,3) by (simp add: removal_inv_def)
  have s_gone: "s \<notin> set (submitted_assignments (gb_session gb1))"
  proof
    assume "s \<in> set (submitted_assignments (gb_session gb1))"
    then have in0: "s \<in> set (submitted_assignments (gb_session gb))"
      and ne: "sa_id s \<noteq> sa_id s'"
      unfolding sa1 by simp_all
    from SubmittedAssignment_student_Some [OF x]
    have "x \<in> set (students (gb_session gb))" "sa_student_id s = Some (st_id x)" by simp_all
    with find_submission_is [OF s' in0 a_in Cons.prems(4)] Cons.prems(5)
    have "s' = s" by simp
    with ne show False by simp
  qed
  from Cons.IH [OF rest inv1 Cons.prems(3,4)] Cons.prems(5)
  have IH: "removal_inv d0 (gb_session gb')"
    "set (submitted_assignments (gb_session gb')) \<subseteq> set (submitted_assignments (gb_session gb1))"
    "\<forall>s \<in> set ss. s \<notin> set (submitted_assignments (gb_session gb'))"
    "ss \<noteq> [] \<longrightarrow> gb_store gb' = gb_session gb'"
    by simp_all
  have "gb_store gb' = gb_session gb'"
    using IH(4) rest st1 by (cases ss) simp_all
  moreover have "set (submitted_assignments (gb_session gb'))
           \<subseteq> set (submitted_assignments (gb_session gb))"
    using IH(2) sa1 by auto
  moreover have "\<forall>t \<in> set (s # ss). t \<notin> set (submitted_assignments (gb_session gb'))"
    using IH(2,3) s_gone by auto
  ultimately show ?case using IH(1) by simp
qed


lemma remove_notebook_eq:
  "remove_notebook n d =
     d\<lparr>grade_cells := filter (\<lambda>c. gc_id c \<notin> gc_id ` set (Notebook_grade_cells d n))
                         (grade_cells d),
       solution_cells := filter (\<lambda>c. sc_id c \<notin> sc_id ` set (Notebook_solution_cells d n))
                         (solution_cells d),
       notebooks := filter (\<lambda>y. nb_id y \<noteq> nb_id n) (notebooks d)\<rparr>"
  by (simp add: remove_notebook_def Let_def fold_delete_grade_cell fold_delete_solution_cell
        delete_notebook_def Notebook_solution_cells_def)

lemma fold_remove_notebook_frame:
  "assignments (fold remove_notebook ns d) = assignments d"
  "students (fold remove_notebook ns d) = students d"
  "submitted_assignments (fold remove_notebook ns d) = submitted_assignments d"
  "submitted_notebooks (fold remove_notebook ns d) = submitted_notebooks d"
  "grades (fold remove_notebook ns d) = grades d"
  "comments (fold remove_notebook ns d) = comments d"
  by (induction ns arbitrary: d) (simp_all add: remove_notebook_eq)

lemma fold_remove_notebook_notebooks:
  "set (notebooks (fold remove_notebook ns d))
     = {y \<in> set (notebooks d). nb_id y \<notin> nb_id ` set ns}"
  by (induction ns arbitrary: d) (auto simp: remove_notebook_eq)

lemma fold_remove_notebook_cells:
  "c \<in> set (grade_cells (fold remove_notebook ns d)) \<Longrightarrow>
     c \<in> set (grade_cells d) \<and> (\<forall>n \<in> set ns. gc_notebook_id c \<noteq> Some (nb_id n))"
  "k \<in> set (solution_cells (fold remove_notebook ns d)) \<Longrightarrow>
     k \<in> set (solution_cells d) \<and> (\<forall>n \<in> set ns. sc_notebook_id k \<noteq> Some (nb_id n))"
proof (induction ns arbitrary: d)
  case Nil
  { case 1 then show ?case by simp }
  { case 2 then show ?case by simp }
next
  case (Cons m ns)
  { case 1
    from Cons.IH(1) [OF 1 [simplified]]
    have "c \<in> set (grade_cells (remove_notebook m d))"
      "\<forall>n \<in> set ns. gc_notebook_id c \<noteq> Some (nb_id n)" by simp_all
    then show ?case
      by (auto simp: remove_notebook_eq Notebook_grade_cells_def) }
  { case 2
    from Cons.IH(2) [OF 2 [simplified]]
    have "k \<in> set (solution_cells (remove_notebook m d))"
      "\<forall>n \<in> set ns. sc_notebook_id k \<noteq> Some (nb_id n)" by simp_all
    then show ?case
      by (auto simp: remove_notebook_eq Notebook_solution_cells_def) }
qed

lemma removal_inv_refl: "removal_inv d d"
  by (simp add: removal_inv_def)

lemma find_assignment_Inr:
  "find_assignment gb name = Inr a \<Longrightarrow>
     a \<in> set (assignments (gb_session gb)) \<and> a_name a = name"
proof -
  assume "find_assignment gb name = Inr a"
  then have "filter (\<lambda>a. a_name a = name) (assignments (gb_session gb)) = [a]"
    by (simp add: find_assignment_def session_query_Inr or_missing_entry_Inr query_one_Inr)
  then have "a \<in> set (filter (\<lambda>a. a_name a = name) (assignments (gb_session gb)))" by simp
  then show ?thesis by simp
qed


lemma mirrors_assignments_iff:
  "mirrors_assignments db \<longleftrightarrow>
     (\<forall>x \<in> set (submitted_notebooks db). \<forall>n \<in> set (notebooks db).
        sn_notebook_id x = Some (nb_id n) \<longrightarrow>
        (\<exists>s \<in> set (submitted_assignments db).
           sn_assignment_id x = Some (sa_id s) \<and> sa_assignment_id s = nb_assignment_id n)) \<and>
     (\<forall>g \<in> set (grades db). \<forall>c \<in> set (grade_cells db).
        g_cell_id g = Some (gc_id c) \<longrightarrow>
        (\<exists>x \<in> set (submitted_notebooks db).
           g_notebook_id g = Some (sn_id x) \<and> sn_notebook_id x = gc_notebook_id c)) \<and>
     (\<forall>k \<in> set (comments db). \<forall>c \<in> set (solution_cells db).
        cm_cell_id k = Some (sc_id c) \<longrightarrow>
        (\<exists>x \<in> set (submitted_notebooks db).
           cm_notebook_id k = Some (sn_id x) \<and> sn_notebook_id x = sc_notebook_id c))"
  by (simp add: mirrors_assignments_def list_all_iff list_ex_iff)

lemmas refers_defs = refers_notebook_def refers_submission_def refers_grade_cell_def
  refers_solution_cell_def refers_submitted_notebook_def refers_grade_def refers_comment_def

text \<open>
  C7, as the code has it.  Take a gradebook whose submission graph mirrors its
  assignments (\<open>mirrors_assignments\<close>: every submitted notebook that copies a notebook
  belongs to a submission of that notebook's assignment, and every grade or comment for
  a cell belongs to a submitted notebook that copies the cell's notebook; this is what
  \<^verbatim>\<open>add_submission\<close> builds).  After a successful remove_assignment(A) on it, the
  assignment is gone and no Notebook, GradeCell, SolutionCell, SubmittedAssignment,
  SubmittedNotebook, Grade or Comment that referred to A, directly or transitively,
  remains in the store.  The references are those of the gradebook before the call.  In
  such a gradebook a deleted row leaves no row behind in any of its relationships, so
  there is no foreign key for the flush to set to NULL.
\<close>

theorem remove_assignment_cascades:
  assumes ok: "remove_assignment gb name = (Inr (), gb')"
      and a: "find_assignment gb name = Inr a"
      and mir: "mirrors_assignments (gb_session gb)"
  shows "a \<notin> set (assignments (gb_store gb')) \<and>
         \<not> list_ex (refers_notebook a) (notebooks (gb_store gb')) \<and>
         \<not> list_ex (refers_grade_cell (gb_session gb) a) (grade_cells (gb_store gb')) \<and>
         \<not> list_ex (refers_solution_cell (gb_session gb) a) (solution_cells (gb_store gb')) \<and>
         \<not> list_ex (refers_submission a) (submitted_assignments (gb_store gb')) \<and>
         \<not> list_ex (refers_submitted_notebook (gb_session gb) a)
              (submitted_notebooks (gb_store gb')) \<and>
         \<not> list_ex (refers_grade (gb_session gb) a) (grades (gb_store gb')) \<and>
         \<not> list_ex (refers_comment (gb_session gb) a) (comments (gb_store gb'))"
proof -
  define d0 where "d0 = gb_session gb"
  from find_assignment_Inr [OF a]
  have a_in: "a \<in> set (assignments d0)" and a_name: "a_name a = name"
    by (simp_all add: d0_def)
  from ok obtain gb1 where
    loop: "remove_submissions gb name (Assignment_submissions d0 a) = (Inr (), gb1)"
    and fin: "commit_or_rollback (gb1\<lparr>gb_session := delete_assignment a
                (fold remove_notebook (Assignment_notebooks (gb_session gb1) a)
                   (gb_session gb1))\<rparr>) = (Inr (), gb')"
    unfolding remove_assignment_def a d0_def
    by (auto simp: Let_def split: prod.splits sum.splits)
  define d1 where "d1 = gb_session gb1"
  define d2 where "d2 = delete_assignment a (fold remove_notebook (Assignment_notebooks d1 a) d1)"
  from commit_or_rollback_success [OF fin] have store: "gb_store gb' = d2"
    by (simp add: d2_def d1_def)
  have "\<forall>s \<in> set (Assignment_submissions d0 a). sa_assignment_id s = Some (a_id a)"
    by (simp add: Assignment_submissions_def)
  from remove_submissions_success [OF loop _ a_in a_name this]
  have inv: "removal_inv d0 d1"
    and gone: "\<forall>s \<in> set (Assignment_submissions d0 a). s \<notin> set (submitted_assignments d1)"
    by (simp_all add: d0_def d1_def removal_inv_refl)
  note inv' = inv [unfolded removal_inv_def]
  have same: "submitted_assignments d2 = submitted_assignments d1"
    "submitted_notebooks d2 = submitted_notebooks d1"
    "grades d2 = grades d1" "comments d2 = comments d1"
    by (simp_all add: d2_def delete_assignment_def fold_remove_notebook_frame)
  have nbs: "set (Assignment_notebooks d1 a)
               = {n \<in> set (notebooks d0). nb_assignment_id n = Some (a_id a)}"
    using inv' by (auto simp: Assignment_notebooks_def)
  have T0: "a \<notin> set (assignments d2)"
    by (simp add: d2_def delete_assignment_def)
  have T1: "\<not> refers_notebook a n" if "n \<in> set (notebooks d2)" for n
  proof
    assume "refers_notebook a n"
    moreover have "n \<in> set (notebooks d1)" "nb_id n \<notin> nb_id ` set (Assignment_notebooks d1 a)"
      using that by (simp_all add: d2_def delete_assignment_def fold_remove_notebook_notebooks)
    ultimately show False using inv' by (auto simp: nbs refers_notebook_def)
  qed
  have T2: "\<not> refers_grade_cell d0 a c" if "c \<in> set (grade_cells d2)" for c
  proof
    assume "refers_grade_cell d0 a c"
    then obtain n where "n \<in> set (Assignment_notebooks d1 a)" "gc_notebook_id c = Some (nb_id n)"
      unfolding nbs by (auto simp: refers_defs list_ex_iff)
    moreover have "c \<in> set (grade_cells (fold remove_notebook (Assignment_notebooks d1 a) d1))"
      using that by (simp add: d2_def delete_assignment_def)
    ultimately show False using fold_remove_notebook_cells(1) by blast
  qed
  have T2': "\<not> refers_solution_cell d0 a c" if "c \<in> set (solution_cells d2)" for c
  proof
    assume "refers_solution_cell d0 a c"
    then obtain n where "n \<in> set (Assignment_notebooks d1 a)" "sc_notebook_id c = Some (nb_id n)"
      unfolding nbs by (auto simp: refers_defs list_ex_iff)
    moreover have "c \<in> set (solution_cells (fold remove_notebook (Assignment_notebooks d1 a) d1))"
      using that by (simp add: d2_def delete_assignment_def)
    ultimately show False using fold_remove_notebook_cells(2) by blast
  qed
  have sa_gone: "r \<notin> set (submitted_assignments d1)"
    if "r \<in> set (submitted_assignments d0)" "refers_submission a r" for r
    using that gone by (simp add: Assignment_submissions_def refers_submission_def)
  have T3: "\<not> refers_submission a r" if "r \<in> set (submitted_assignments d1)" for r
    using that sa_gone inv' by blast
  have sn_gone: "x \<notin> set (submitted_notebooks d1)"
    if x: "x \<in> set (submitted_notebooks d0)" and ref: "refers_submitted_notebook d0 a x" for x
  proof -
    have "\<exists>r \<in> set (submitted_assignments d0).
            refers_submission a r \<and> sn_assignment_id x = Some (sa_id r)"
      using ref
    proof (unfold refers_submitted_notebook_def list_ex_iff, elim disjE bexE conjE)
      fix n assume "n \<in> set (notebooks d0)" "refers_notebook a n"
        "sn_notebook_id x = Some (nb_id n)"
      with mir [unfolded mirrors_assignments_iff d0_def [symmetric]] x
      show ?thesis by (fastforce simp: refers_notebook_def refers_submission_def)
    qed blast
    then obtain r where r: "r \<in> set (submitted_assignments d0)" "refers_submission a r"
      "sn_assignment_id x = Some (sa_id r)" by blast
    from sa_gone [OF r(1,2)] r(1,3) inv' show ?thesis by blast
  qed
  have T4: "\<not> refers_submitted_notebook d0 a x" if "x \<in> set (submitted_notebooks d1)" for x
    using that sn_gone inv' by blast
  have T5: "\<not> refers_grade d0 a g" if g1: "g \<in> set (grades d1)" for g
  proof
    assume ref: "refers_grade d0 a g"
    have g0: "g \<in> set (grades d0)" using g1 inv' by blast
    have "\<exists>x \<in> set (submitted_notebooks d0).
            refers_submitted_notebook d0 a x \<and> g_notebook_id g = Some (sn_id x)"
      using ref
    proof (unfold refers_grade_def list_ex_iff, elim disjE bexE conjE)
      fix c assume c: "c \<in> set (grade_cells d0)" "refers_grade_cell d0 a c"
        "g_cell_id g = Some (gc_id c)"
      with mir [unfolded mirrors_assignments_iff d0_def [symmetric]] g0
      obtain x where "x \<in> set (submitted_notebooks d0)" "g_notebook_id g = Some (sn_id x)"
        "sn_notebook_id x = gc_notebook_id c" by blast
      moreover from this c(2) have "refers_submitted_notebook d0 a x"
        by (auto simp: refers_defs list_ex_iff)
      ultimately show ?thesis by blast
    qed blast
    then obtain x where x: "x \<in> set (submitted_notebooks d0)" "refers_submitted_notebook d0 a x"
      "g_notebook_id g = Some (sn_id x)" by blast
    from sn_gone [OF x(1,2)] x(1,3) g1 inv' show False by blast
  qed
  have T6: "\<not> refers_comment d0 a k" if k1: "k \<in> set (comments d1)" for k
  proof
    assume ref: "refers_comment d0 a k"
    have k0: "k \<in> set (comments d0)" using k1 inv' by blast
    have "\<exists>x \<in> set (submitted_notebooks d0).
            refers_submitted_notebook d0 a x \<and> cm_notebook_id k = Some (sn_id x)"
      using ref
    proof (unfold refers_comment_def list_ex_iff, elim disjE bexE conjE)
      fix c assume c: "c \<in> set (solution_cells d0)" "refers_solution_cell d0 a c"
        "cm_cell_id k = Some (sc_id c)"
      with mir [unfolded mirrors_assignments_iff d0_def [symmetric]] k0
      obtain x where "x \<in> set (submitted_notebooks d0)" "cm_notebook_id k = Some (sn_id x)"
        "sn_notebook_id x = sc_notebook_id c" by blast
      moreover from this c(2) have "refers_submitted_notebook d0 a x"
        by (auto simp: refers_defs list_ex_iff)
      ultimately show ?thesis by blast
    qed blast
    then obtain x where x: "x \<in> set (submitted_notebooks d0)" "refers_submitted_notebook d0 a x"
      "cm_notebook_id k = Some (sn_id x)" by blast
    from sn_gone [OF x(1,2)] x(1,3) k1 inv' show False by blast
  qed
  show ?thesis
    unfolding store d0_def [symmetric] list_ex_iff same
    using T0 T1 T2 T2' T3 T4 T5 T6 by blast
qed

lemma ex_mirrors: "mirrors_assignments ex_db_submitted"
  by (simp add: mirrors_assignments_def ex_submission_defs)

lemma ex_find_assignment_submitted:
  "find_assignment ex_gradebook_submitted ''hw1'' = Inr ex_assignment"
  by (simp add: facade_defs ex_submission_defs ex_gradebook_submitted_def)

lemma ex_remove_assignment:
  "remove_assignment ex_gradebook_submitted ''hw1''
     = (Inr (), \<lparr>gb_store = ex_db_removed, gb_session = ex_db_removed, gb_inactive = False\<rparr>)"
  by (simp add: remove_assignment_def remove_submission_def find_submission_def facade_defs
        ex_submission_defs ex_gradebook_submitted_def sql_eq_def Let_def
        Assignment_submissions_def SubmittedAssignment_student_def
        SubmittedAssignment_notebooks_def
        remove_submitted_notebook_def SubmittedNotebook_grades_def
        SubmittedNotebook_comments_def delete_grade_def delete_comment_def
        delete_submitted_notebook_def delete_submitted_assignment_def
        Assignment_notebooks_def remove_notebook_def Notebook_grade_cells_def
        Notebook_solution_cells_def delete_grade_cell_def delete_solution_cell_def
        delete_notebook_def delete_assignment_def ex_db_removed_def)

theorem remove_assignment_cascades_witness:
  "remove_assignment ex_gradebook_submitted ''hw1''
     = (Inr (), \<lparr>gb_store = ex_db_removed, gb_session = ex_db_removed, gb_inactive = False\<rparr>)
   \<and> find_assignment ex_gradebook_submitted ''hw1'' = Inr ex_assignment
   \<and> mirrors_assignments ex_db_submitted
   \<and> list_ex (refers_grade ex_db_submitted ex_assignment) (grades ex_db_submitted)
   \<and> ex_assignment \<notin> set (assignments ex_db_removed)
   \<and> \<not> list_ex (refers_notebook ex_assignment) (notebooks ex_db_removed)
   \<and> \<not> list_ex (refers_grade_cell ex_db_submitted ex_assignment) (grade_cells ex_db_removed)
   \<and> \<not> list_ex (refers_solution_cell ex_db_submitted ex_assignment)
          (solution_cells ex_db_removed)
   \<and> \<not> list_ex (refers_submission ex_assignment) (submitted_assignments ex_db_removed)
   \<and> \<not> list_ex (refers_submitted_notebook ex_db_submitted ex_assignment)
          (submitted_notebooks ex_db_removed)
   \<and> \<not> list_ex (refers_grade ex_db_submitted ex_assignment) (grades ex_db_removed)
   \<and> \<not> list_ex (refers_comment ex_db_submitted ex_assignment) (comments ex_db_removed)"
proof -
  have m: "mirrors_assignments (gb_session ex_gradebook_submitted)"
    using ex_mirrors by (simp add: ex_gradebook_submitted_def)
  have r: "list_ex (refers_grade ex_db_submitted ex_assignment) (grades ex_db_submitted)"
    by (simp add: refers_defs ex_submission_defs)
  show ?thesis
    using remove_assignment_cascades [OF ex_remove_assignment ex_find_assignment_submitted m]
      ex_remove_assignment ex_find_assignment_submitted ex_mirrors r
    by (simp add: ex_gradebook_submitted_def)
qed

lemmas ex_moved_defs = ex_gradebook_two_assignments_def ex_db_two_assignments_def
  ex_assignment2_def ex_gradebook_hw1_submitted_def ex_db_hw1_submitted_def
  ex_gradebook_cell_moved_def ex_db_cell_moved_def

lemmas removal_defs = remove_assignment_def remove_submission_def find_submission_def
  Assignment_submissions_def SubmittedAssignment_student_def
  SubmittedAssignment_notebooks_def remove_submitted_notebook_def
  SubmittedNotebook_grades_def SubmittedNotebook_comments_def delete_grade_def
  delete_comment_def delete_submitted_notebook_def delete_submitted_assignment_def
  Assignment_notebooks_def remove_notebook_def Notebook_grade_cells_def
  Notebook_solution_cells_def delete_grade_cell_def delete_solution_cell_def
  delete_notebook_def delete_assignment_def

lemma ex_step1:
  "add_submission ex_gradebook_two_assignments ex_uuid ex_parse_utc ''hw1'' ''s1'' ex_kwargs
     = (Inr ex_new_submission, ex_gradebook_hw1_submitted)"
  by (simp add: add_submission_def facade_defs ex_submission_defs ex_moved_defs Let_def
        Assignment_notebooks_def Notebook_grade_cells_def Notebook_solution_cells_def
        new_grades_def new_comments_def enumerate_eq_zip)

lemma ex_step2:
  "update_or_create_grade_cell ex_gradebook_hw1_submitted ''x'' ''test1'' ''nb1'' ''hw1''
       [GC_notebook_id (Some ''N2'')]
     = (Inr (ex_code_cell\<lparr>gc_notebook_id := Some ''N2''\<rparr>), ex_gradebook_cell_moved)"
  by (simp add: update_or_create_grade_cell_def find_grade_cell_def facade_defs sql_eq_def
        ex_submission_defs ex_moved_defs Let_def)

text \<open>
  The claim as written speaks of every gradebook.  Here student \<open>s1\<close> submits \<open>hw1\<close>, the
  grade cell of \<open>hw1\<close> is then moved into notebook \<open>nb2\<close> of \<open>hw2\<close>, and \<open>hw2\<close> is removed.
  All three calls succeed.  Before the removal the grade \<open>uuu\<close> of the submission refers
  to \<open>hw2\<close> through its cell; the removal deletes the cell, the notebook and the
  assignment, finds no submission of \<open>hw2\<close> to remove, and the grade \<open>uuu\<close> is still in the
  store.  (In the running code the flush also sets the \<^verbatim>\<open>cell_id\<close> of that grade to
  NULL; the row stays.)
\<close>

theorem remove_assignment_moved_cell_counterexample:
  "add_submission ex_gradebook_two_assignments ex_uuid ex_parse_utc ''hw1'' ''s1'' ex_kwargs
     = (Inr ex_new_submission, ex_gradebook_hw1_submitted)
   \<and> update_or_create_grade_cell ex_gradebook_hw1_submitted ''x'' ''test1'' ''nb1'' ''hw1''
         [GC_notebook_id (Some ''N2'')]
       = (Inr (ex_code_cell\<lparr>gc_notebook_id := Some ''N2''\<rparr>), ex_gradebook_cell_moved)
   \<and> find_assignment ex_gradebook_cell_moved ''hw2'' = Inr ex_assignment2
   \<and> list_ex (\<lambda>g. g_id g = ''uuu'' \<and>
                   refers_grade (gb_session ex_gradebook_cell_moved) ex_assignment2 g)
        (grades (gb_session ex_gradebook_cell_moved))
   \<and> \<not> mirrors_assignments (gb_session ex_gradebook_cell_moved)
   \<and> (case remove_assignment ex_gradebook_cell_moved ''hw2'' of
         (r, gb') \<Rightarrow> r = Inr () \<and> list_ex (\<lambda>g. g_id g = ''uuu'') (grades (gb_store gb')))"
proof (intro conjI)
  show "find_assignment ex_gradebook_cell_moved ''hw2'' = Inr ex_assignment2"
    by (simp add: facade_defs ex_submission_defs ex_moved_defs)
  show "list_ex (\<lambda>g. g_id g = ''uuu'' \<and>
                   refers_grade (gb_session ex_gradebook_cell_moved) ex_assignment2 g)
        (grades (gb_session ex_gradebook_cell_moved))"
    by (simp add: refers_defs ex_submission_defs ex_moved_defs)
  show "\<not> mirrors_assignments (gb_session ex_gradebook_cell_moved)"
    by (simp add: mirrors_assignments_def ex_submission_defs ex_moved_defs)
  show "case remove_assignment ex_gradebook_cell_moved ''hw2'' of
         (r, gb') \<Rightarrow> r = Inr () \<and> list_ex (\<lambda>g. g_id g = ''uuu'') (grades (gb_store gb'))"
    by (simp add: removal_defs facade_defs sql_eq_def ex_submission_defs ex_moved_defs
          Let_def)
qed (rule ex_step1 ex_step2)+

section \<open>The submission graph mirrors the assignments\<close>

lemma new_grades_rows:
  "g \<in> set (new_grades uuid k nb cells) \<Longrightarrow>
     g_notebook_id g = Some nb \<and> (\<exists>c \<in> set cells. g_cell_id g = Some (gc_id c))"
  unfolding new_grades_def by (auto dest!: in_set_zipE simp: enumerate_eq_zip)

lemma new_comments_rows:
  "k' \<in> set (new_comments uuid k nb cells) \<Longrightarrow>
     cm_notebook_id k' = Some nb \<and> (\<exists>c \<in> set cells. cm_cell_id k' = Some (sc_id c))"
  unfolding new_comments_def by (auto dest!: in_set_zipE simp: enumerate_eq_zip)

lemma mirror_notebooks_rows:
  "mirror_notebooks db uuid k sid ns = (nbs, gs, cs) \<Longrightarrow>
     (\<forall>x \<in> set nbs. sn_assignment_id x = Some sid \<and>
        (\<exists>m \<in> set ns. sn_notebook_id x = Some (nb_id m))) \<and>
     (\<forall>g \<in> set gs. \<exists>x \<in> set nbs. \<exists>m \<in> set ns. \<exists>c \<in> set (Notebook_grade_cells db m).
        g_notebook_id g = Some (sn_id x) \<and> sn_notebook_id x = Some (nb_id m) \<and>
        g_cell_id g = Some (gc_id c)) \<and>
     (\<forall>y \<in> set cs. \<exists>x \<in> set nbs. \<exists>m \<in> set ns. \<exists>c \<in> set (Notebook_solution_cells db m).
        cm_notebook_id y = Some (sn_id x) \<and> sn_notebook_id x = Some (nb_id m) \<and>
        cm_cell_id y = Some (sc_id c))"
proof (induction ns arbitrary: k nbs gs cs)
  case Nil
  then show ?case by simp
next
  case (Cons m ns)
  define nb where "nb = \<lparr>sn_id = uuid k, sn_notebook_id = Some (nb_id m),
                sn_assignment_id = Some sid\<rparr>"
  from Cons.prems(1) obtain nbs' gs' cs' where rest:
    "mirror_notebooks db uuid (k + 1 + length (Notebook_grade_cells db m)
        + length (Notebook_solution_cells db m)) sid ns = (nbs', gs', cs')"
    and nbs: "nbs = nb # nbs'"
    and gs: "gs = new_grades uuid (k + 1) (sn_id nb) (Notebook_grade_cells db m) @ gs'"
    and cs: "cs = new_comments uuid (k + 1 + length (Notebook_grade_cells db m)) (sn_id nb)
                    (Notebook_solution_cells db m) @ cs'"
    unfolding nb_def by (rule mirror_notebooks_Cons) simp
  note IH = Cons.IH [OF rest]
  have 1: "\<forall>x \<in> set nbs. sn_assignment_id x = Some sid \<and>
        (\<exists>m' \<in> set (m # ns). sn_notebook_id x = Some (nb_id m'))"
    using IH unfolding nbs by (auto simp: nb_def)
  have 2: "\<exists>x \<in> set nbs. \<exists>m' \<in> set (m # ns). \<exists>c \<in> set (Notebook_grade_cells db m').
        g_notebook_id g = Some (sn_id x) \<and> sn_notebook_id x = Some (nb_id m') \<and>
        g_cell_id g = Some (gc_id c)" if "g \<in> set gs" for g
  proof (cases "g \<in> set gs'")
    case True
    with IH show ?thesis unfolding nbs by (metis list.set_intros(2))
  next
    case False
    with that have "g \<in> set (new_grades uuid (k + 1) (sn_id nb) (Notebook_grade_cells db m))"
      unfolding gs by simp
    from new_grades_rows [OF this] show ?thesis
      unfolding nbs by (auto simp: nb_def)
  qed
  have 3: "\<exists>x \<in> set nbs. \<exists>m' \<in> set (m # ns). \<exists>c \<in> set (Notebook_solution_cells db m').
        cm_notebook_id y = Some (sn_id x) \<and> sn_notebook_id x = Some (nb_id m') \<and>
        cm_cell_id y = Some (sc_id c)" if "y \<in> set cs" for y
  proof (cases "y \<in> set cs'")
    case True
    with IH show ?thesis unfolding nbs by (metis list.set_intros(2))
  next
    case False
    with that have "y \<in> set (new_comments uuid (k + 1 + length (Notebook_grade_cells db m))
                     (sn_id nb) (Notebook_solution_cells db m))"
      unfolding cs by simp
    from new_comments_rows [OF this] show ?thesis
      unfolding nbs by (auto simp: nb_def)
  qed
  from 1 2 3 show ?case by blast
qed

lemma distinct_map_eq: "distinct (map f xs) \<Longrightarrow> x \<in> set xs \<Longrightarrow> y \<in> set xs \<Longrightarrow> f x = f y \<Longrightarrow> x = y"
  by (meson distinct_map inj_onD)

text \<open>
  The shape assumed of the gradebook in C7 is the one \<^verbatim>\<open>add_submission\<close> builds: a
  successful call keeps it, and a gradebook without submissions has it.
\<close>

lemma add_submission_keeps_mirror:
  assumes ok: "add_submission gb uuid parse_utc assignment student kwargs = (Inr submission, gb')"
      and mir: "mirrors_assignments (gb_session gb)"
  shows "mirrors_assignments (gb_store gb')"
proof -
  define V where "V = gb_session gb"
  define V' where "V' = gb_store gb'"
  from ok obtain a s nbs gs cs where
    m: "mirror_notebooks V uuid 1 (uuid 0) (Assignment_notebooks V a) = (nbs, gs, cs)"
    and sid: "sa_id submission = uuid 0"
    and said: "sa_assignment_id submission = Some (a_id a)"
    and V': "V' = V\<lparr>submitted_assignments := submitted_assignments V @ [submission],
        submitted_notebooks := submitted_notebooks V @ nbs,
        grades := grades V @ gs, comments := comments V @ cs\<rparr>"
    and int: "integrity_ok V'"
    unfolding V_def V'_def by (elim add_submission_success) simp
  note rows = mirror_notebooks_rows [OF m]
  note old = mir [unfolded mirrors_assignments_iff V_def [symmetric]]
  have pk_n: "distinct (map nb_id (notebooks V))"
    and pk_c: "distinct (map gc_id (grade_cells V))"
    and pk_s: "distinct (map sc_id (solution_cells V))"
    using int by (simp_all add: integrity_ok_def V')
  have in_a: "m \<in> set (notebooks V) \<and> nb_assignment_id m = Some (a_id a)"
    if "m \<in> set (Assignment_notebooks V a)" for m
    using that by (simp add: Assignment_notebooks_def)
  have A: "\<exists>s \<in> set (submitted_assignments V').
             sn_assignment_id x = Some (sa_id s) \<and> sa_assignment_id s = nb_assignment_id n"
    if x: "x \<in> set (submitted_notebooks V')" and n: "n \<in> set (notebooks V)"
      and xn: "sn_notebook_id x = Some (nb_id n)" for x n
  proof (cases "x \<in> set nbs")
    case True
    with rows obtain m' where m': "m' \<in> set (Assignment_notebooks V a)"
      "sn_notebook_id x = Some (nb_id m')" "sn_assignment_id x = Some (uuid 0)" by blast
    with in_a [OF m'(1)] xn n pk_n have "n = m'" by (auto dest: distinct_map_eq)
    with in_a [OF m'(1)] m'(3) show ?thesis by (auto simp: V' sid said)
  next
    case False
    with x have "x \<in> set (submitted_notebooks V)" by (simp add: V')
    with old n xn show ?thesis by (fastforce simp: V')
  qed
  have B: "\<exists>x \<in> set (submitted_notebooks V').
             g_notebook_id g = Some (sn_id x) \<and> sn_notebook_id x = gc_notebook_id c"
    if g: "g \<in> set (grades V')" and c: "c \<in> set (grade_cells V)"
      and gc: "g_cell_id g = Some (gc_id c)" for g c
  proof (cases "g \<in> set gs")
    case True
    with rows obtain x m' c' where r: "x \<in> set nbs" "m' \<in> set (Assignment_notebooks V a)"
      "c' \<in> set (Notebook_grade_cells V m')" "g_notebook_id g = Some (sn_id x)"
      "sn_notebook_id x = Some (nb_id m')" "g_cell_id g = Some (gc_id c')" by blast
    from r(3) have "c' \<in> set (grade_cells V)" "gc_notebook_id c' = Some (nb_id m')"
      by (simp_all add: Notebook_grade_cells_def)
    with gc r(6) c pk_c have "c = c'" by (auto dest: distinct_map_eq)
    with r \<open>gc_notebook_id c' = Some (nb_id m')\<close> show ?thesis by (auto simp: V')
  next
    case False
    with g have "g \<in> set (grades V)" by (simp add: V')
    with old c gc show ?thesis by (fastforce simp: V')
  qed
  have C: "\<exists>x \<in> set (submitted_notebooks V').
             cm_notebook_id k = Some (sn_id x) \<and> sn_notebook_id x = sc_notebook_id c"
    if k: "k \<in> set (comments V')" and c: "c \<in> set (solution_cells V)"
      and kc: "cm_cell_id k = Some (sc_id c)" for k c
  proof (cases "k \<in> set cs")
    case True
    with rows obtain x m' c' where r: "x \<in> set nbs" "m' \<in> set (Assignment_notebooks V a)"
      "c' \<in> set (Notebook_solution_cells V m')" "cm_notebook_id k = Some (sn_id x)"
      "sn_notebook_id x = Some (nb_id m')" "cm_cell_id k = Some (sc_id c')" by blast
    from r(3) have "c' \<in> set (solution_cells V)" "sc_notebook_id c' = Some (nb_id m')"
      by (simp_all add: Notebook_solution_cells_def)
    with kc r(6) c pk_s have "c = c'" by (auto dest: distinct_map_eq)
    with r \<open>sc_notebook_id c' = Some (nb_id m')\<close> show ?thesis by (auto simp: V')
  next
    case False
    with k have "k \<in> set (comments V)" by (simp add: V')
    with old c kc show ?thesis by (fastforce simp: V')
  qed
  have tabs: "notebooks V' = notebooks V" "grade_cells V' = grade_cells V"
    "solution_cells V' = solution_cells V" by (simp_all add: V')
  show ?thesis
    unfolding V'_def [symmetric] mirrors_assignments_iff tabs using A B C by blast
qed

lemma no_submissions_mirror:
  "submitted_notebooks db = [] \<Longrightarrow> grades db = [] \<Longrightarrow> comments db = []
     \<Longrightarrow> mirrors_assignments db"
  by (simp add: mirrors_assignments_def)

section \<open>Averages over no submission\<close>

lemma py_truediv_pos: "0 < n \<Longrightarrow> py_truediv x n \<noteq> Inl ZeroDivisionError"
  by (simp add: py_truediv_def)

lemma find_assignment_not_zero_division:
  "find_assignment gb name \<noteq> Inl ZeroDivisionError"
  by (auto simp: find_assignment_def session_query_def or_missing_entry_def query_one_def
        split: list.splits)

lemma find_notebook_not_zero_division:
  "find_notebook gb name assignment \<noteq> Inl ZeroDivisionError"
  by (auto simp: find_notebook_def session_query_def or_missing_entry_def query_one_def
        split: list.splits)

lemma average_assignment_score_total:
  "average_assignment_score gb name \<noteq> Inl ZeroDivisionError"
  using find_assignment_not_zero_division [of gb name]
  by (auto simp: average_assignment_score_def Let_def py_truediv_def split: sum.splits)

lemma average_assignment_typed_score_total:
  "average_assignment_typed_score t gb name \<noteq> Inl ZeroDivisionError"
  using find_assignment_not_zero_division [of gb name]
  by (auto simp: average_assignment_typed_score_def Let_def py_truediv_def split: sum.splits)

lemma average_notebook_score_total:
  "average_notebook_score gb nb name \<noteq> Inl ZeroDivisionError"
  using find_notebook_not_zero_division [of gb nb name]
  by (auto simp: average_notebook_score_def Let_def py_truediv_def split: sum.splits)

lemma average_notebook_typed_score_total:
  "average_notebook_typed_score t gb nb name \<noteq> Inl ZeroDivisionError"
  using find_notebook_not_zero_division [of gb nb name]
  by (auto simp: average_notebook_typed_score_def Let_def py_truediv_def split: sum.splits)

lemmas average_defs = average_assignment_code_score_def average_assignment_written_score_def
  average_notebook_code_score_def average_notebook_written_score_def

text \<open>
  C8. For an assignment, and likewise a notebook, that exists and has no submission, each
  of the six average-score operations returns 0.0; and none of them ever raises
  ZeroDivisionError, whatever the gradebook.
\<close>

theorem average_scores_without_submissions:
  "(find_assignment gb assignment = Inr a \<and> Assignment_num_submissions (gb_session gb) a = 0
      \<longrightarrow> average_assignment_score gb assignment = Inr 0
        \<and> average_assignment_code_score gb assignment = Inr 0
        \<and> average_assignment_written_score gb assignment = Inr 0)
   \<and> (find_notebook gb notebook assignment = Inr n
        \<and> Notebook_num_submissions (gb_session gb) n = 0
      \<longrightarrow> average_notebook_score gb notebook assignment = Inr 0
        \<and> average_notebook_code_score gb notebook assignment = Inr 0
        \<and> average_notebook_written_score gb notebook assignment = Inr 0)
   \<and> average_assignment_score gb assignment \<noteq> Inl ZeroDivisionError
   \<and> average_assignment_code_score gb assignment \<noteq> Inl ZeroDivisionError
   \<and> average_assignment_written_score gb assignment \<noteq> Inl ZeroDivisionError
   \<and> average_notebook_score gb notebook assignment \<noteq> Inl ZeroDivisionError
   \<and> average_notebook_code_score gb notebook assignment \<noteq> Inl ZeroDivisionError
   \<and> average_notebook_written_score gb notebook assignment \<noteq> Inl ZeroDivisionError"
proof (intro conjI impI)
  assume "find_assignment gb assignment = Inr a \<and>
    Assignment_num_submissions (gb_session gb) a = 0"
  then show "average_assignment_score gb assignment = Inr 0"
    "average_assignment_code_score gb assignment = Inr 0"
    "average_assignment_written_score gb assignment = Inr 0"
    by (simp_all add: average_defs average_assignment_score_def
          average_assignment_typed_score_def)
next
  assume "find_notebook gb notebook assignment = Inr n \<and>
    Notebook_num_submissions (gb_session gb) n = 0"
  then show "average_notebook_score gb notebook assignment = Inr 0"
    "average_notebook_code_score gb notebook assignment = Inr 0"
    "average_notebook_written_score gb notebook assignment = Inr 0"
    by (simp_all add: average_defs average_notebook_score_def
          average_notebook_typed_score_def)
qed (simp_all add: average_defs average_assignment_score_total
       average_assignment_typed_score_total average_notebook_score_total
       average_notebook_typed_score_total)

lemma ex_find_notebook: "find_notebook ex_gradebook ''nb1'' ''hw1'' = Inr ex_notebook"
  by (simp add: find_notebook_def facade_defs ex_submission_defs sql_eq_def)

theorem average_scores_without_submissions_witness:
  "find_assignment ex_gradebook ''hw1'' = Inr ex_assignment
   \<and> Assignment_num_submissions (gb_session ex_gradebook) ex_assignment = 0
   \<and> find_notebook ex_gradebook ''nb1'' ''hw1'' = Inr ex_notebook
   \<and> Notebook_num_submissions (gb_session ex_gradebook) ex_notebook = 0
   \<and> average_assignment_score ex_gradebook ''hw1'' = Inr 0
   \<and> average_assignment_code_score ex_gradebook ''hw1'' = Inr 0
   \<and> average_assignment_written_score ex_gradebook ''hw1'' = Inr 0
   \<and> average_notebook_score ex_gradebook ''nb1'' ''hw1'' = Inr 0
   \<and> average_notebook_code_score ex_gradebook ''nb1'' ''hw1'' = Inr 0
   \<and> average_notebook_written_score ex_gradebook ''nb1'' ''hw1'' = Inr 0"
proof -
  have a: "Assignment_num_submissions (gb_session ex_gradebook) ex_assignment = 0"
    by (simp add: Assignment_num_submissions_def sql_where_def ex_submission_defs)
  have n: "Notebook_num_submissions (gb_session ex_gradebook) ex_notebook = 0"
    by (simp add: Notebook_num_submissions_def sql_where_def ex_submission_defs)
  show ?thesis
    using average_scores_without_submissions
            [of ex_gradebook "''hw1''" ex_assignment "''nb1''" ex_notebook]
      ex_find_assignment ex_find_notebook a n
    by simp
qed

section \<open>Due dates and lateness of a submission\<close>

text \<open>
  Where the computation does return, it returns what C9 says: the due date of the
  assignment plus the extension, and the lateness in seconds, cut at 0, or 0 when the
  timestamp or the due date is unset.
\<close>

lemma SubmittedAssignment_duedate_value:
  "SubmittedAssignment_assignment db s = Some a \<Longrightarrow>
     sa_extension s = None \<or> a_duedate a \<noteq> None \<Longrightarrow>
     SubmittedAssignment_duedate db s
       = Inr (case sa_extension s of
                None \<Rightarrow> a_duedate a
              | Some e \<Rightarrow> map_option (\<lambda>d. d + e) (a_duedate a))"
  by (auto simp: SubmittedAssignment_duedate_def split: option.splits)

lemma SubmittedAssignment_total_seconds_late_value:
  "SubmittedAssignment_duedate db s = Inr due \<Longrightarrow>
     SubmittedAssignment_total_seconds_late db s
       = Inr (case (sa_timestamp s, due) of
                (Some t, Some d) \<Rightarrow> max 0 (total_seconds (t - d))
              | _ \<Rightarrow> 0)"
  by (auto simp: SubmittedAssignment_total_seconds_late_def split: option.splits)

text \<open>
  C9 at a submission with an extension to an assignment without due date: the due date
  of the submission is \<^verbatim>\<open>None + timedelta\<close>, which raises TypeError, and so does
  \<^verbatim>\<open>total_seconds_late\<close>, which reads the due date because the timestamp is set.
\<close>

theorem duedate_extension_without_duedate_raises:
  "SubmittedAssignment_assignment ex_db_extended ex_extended_submission = Some ex_assignment
   \<and> a_duedate ex_assignment = None
   \<and> sa_extension ex_extended_submission = Some 86400000000
   \<and> SubmittedAssignment_duedate ex_db_extended ex_extended_submission = Inl TypeError
   \<and> SubmittedAssignment_total_seconds_late ex_db_extended ex_extended_submission
       = Inl TypeError"
  by (simp add: SubmittedAssignment_total_seconds_late_def SubmittedAssignment_duedate_def
        SubmittedAssignment_assignment_def ex_db_extended_def ex_extended_submission_def
        ex_defs)

section \<open>The bulk report of students against the per-student report\<close>

lemmas report_defs = student_dicts_def student_dicts_by_entity_def Student_to_dict_def
  student_scores_def sql_group_by_def sql_left_outer_join_def Student_score_def
  Student_max_score_def Assignment_max_score_def sql_where_def sql_sum_def sql_coalesce_def
  sql_eq_def sql_and_def Grade_score_def sql_is_not_null_def

text \<open>
  On the example gradebook, where every table has rows, the two reports agree.
\<close>

lemma student_dicts_example_agree:
  "student_dicts ex_db = student_dicts_by_entity ex_db"
  by (simp add: report_defs ex_defs)

text \<open>
  C10 at a gradebook that holds a student and no grade cell (the gradebook right after
  \<^verbatim>\<open>add_student("s1")\<close>).  \<^verbatim>\<open>student_dicts\<close> selects from the product of
  \<^verbatim>\<open>grade_cell\<close> and the students, which is empty, and returns no dictionary at all;
  \<^verbatim>\<open>Student.to_dict()\<close> for each student returns one dictionary, with score 0.0 and
  max_score 0.0.
\<close>

theorem student_dicts_without_grade_cells:
  "student_dicts ex_db_removed = []
   \<and> student_dicts_by_entity ex_db_removed
       = [\<lparr>sd_id = ''s1'', sd_first_name = None, sd_last_name = None, sd_email = None,
           sd_score = Some 0, sd_max_score = Some 0\<rparr>]"
  by (simp add: report_defs ex_db_removed_def ex_student_def)

section \<open>The scenario of the specification\<close>

text \<open>
  With the code grade at auto_score 2 and the written grade at manual_score 1, the
  submitted notebook has score 3 out of 5, code score 2, written score 1, needs no manual
  grade and has no failed test.
\<close>

lemma scenario_graded_submission:
  "SubmittedNotebook_score ex_db_graded ex_submitted_notebook = 3
   \<and> SubmittedNotebook_max_score ex_db_graded ex_submitted_notebook = Some 5
   \<and> SubmittedNotebook_code_score ex_db_graded ex_submitted_notebook = 2
   \<and> SubmittedNotebook_written_score ex_db_graded ex_submitted_notebook = 1
   \<and> \<not> SubmittedNotebook_needs_manual_grade ex_db_graded ex_submitted_notebook
   \<and> \<not> SubmittedNotebook_failed_tests ex_db_graded ex_submitted_notebook
   \<and> SubmittedAssignment_score ex_db_graded ex_submission = 3
   \<and> Student_score ex_db_graded ex_student = 3"
  by (simp add: ex_db_graded_def ex_defs SubmittedNotebook_score_def
        SubmittedNotebook_max_score_def Notebook_max_score_def
        SubmittedNotebook_code_score_def SubmittedNotebook_written_score_def
        SubmittedNotebook_typed_score_def SubmittedNotebook_needs_manual_grade_def
        SubmittedNotebook_failed_tests_def SubmittedAssignment_score_def Student_score_def
        Grade_score_def Grade_needs_manual_grade_def Grade_failed_tests_def
        Grade_max_score_def Grade_cell_type_def sql_where_def sql_sum_def sql_coalesce_def
        sql_eq_def sql_and_def sql_lt_def sql_is_null_def sql_is_not_null_def sql_exists_def
        sql_scalar_def)


end
